theory Spec2Isabelle
  imports Main "HOL-Library.AList"
begin

section \<open>pyArango documents and edges\<close>

text \<open>
  A shallow embedding of \<^verbatim>\<open>pyArango/document.py\<close>: the classes \<^verbatim>\<open>Document\<close> and
  \<^verbatim>\<open>Edge\<close>. A method becomes a function from the object (and the log of HTTP
  requests sent so far) to the outcome of the call and the object afterwards. An
  exception does not undo the assignments made before it was raised, so every method
  returns the object together with its result, also when the result is an error.
\<close>

subsection \<open>Python values and dictionaries\<close>

text \<open>
  The values held in a document are JSON scalars. \<^verbatim>\<open>None\<close> is a value like any
  other: an attribute is unset when it holds \<open>PNone\<close>.
\<close>

datatype pyval = PNone | PBool bool | PInt int | PStr string

text \<open>Truth value of an object, as \<^verbatim>\<open>not x\<close> and \<^verbatim>\<open>if x\<close> read it.\<close>

fun truthy :: "pyval \<Rightarrow> bool" where
  "truthy PNone = False"
| "truthy (PBool b) = b"
| "truthy (PInt i) = (i \<noteq> 0)"
| "truthy (PStr s) = (s \<noteq> [])"

definition digit :: "nat \<Rightarrow> char" where
  "digit n = ''0123456789'' ! n"

function nat_str :: "nat \<Rightarrow> string" where
  "nat_str n = (if n < 10 then [digit n] else nat_str (n div 10) @ [digit (n mod 10)])"
  by pat_completeness auto
termination
  by (relation "measure (\<lambda>n. n)") auto

text \<open>\<^verbatim>\<open>"%s" % x\<close>: the printed form of a scalar.\<close>

fun py_str :: "pyval \<Rightarrow> string" where
  "py_str PNone = ''None''"
| "py_str (PBool b) = (if b then ''True'' else ''False'')"
| "py_str (PInt i) = (if i < 0 then ''-'' @ nat_str (nat (- i)) else nat_str (nat i))"
| "py_str (PStr s) = s"

text \<open>
  A dictionary is an association list with string keys; the order of the list is the
  order in which \<^verbatim>\<open>keys()\<close> lists them. \<^verbatim>\<open>d[k]\<close> is \<open>map_of d k\<close> (a missing key
  raises \<^verbatim>\<open>KeyError\<close>), \<^verbatim>\<open>d[k] = v\<close> is \<open>AList.update k v d\<close>, \<^verbatim>\<open>del d[k]\<close> is
  \<open>AList.delete k d\<close>.
\<close>

type_synonym pydict = "(string \<times> pyval) list"

text \<open>\<^verbatim>\<open>d.update(e)\<close>: every entry of \<open>e\<close> is assigned into \<open>d\<close>.\<close>

definition dict_update :: "pydict \<Rightarrow> pydict \<Rightarrow> pydict" where
  "dict_update d e = fold (\<lambda>(k, v). AList.update k v) e d"

subsection \<open>Exceptions\<close>

text \<open>
  The exceptions the module raises, each with the arguments it is raised with.
  \<open>CreationError\<close>, \<open>UpdateError\<close> and \<open>DeletionError\<close> carry the server's message and,
  when the server answered, the decoded answer. The last three are raised by the
  collection's validators only.
\<close>

datatype error =
    KeyError string
  | TypeError string
  | NameError string
  | ValueError string
  | AttributeError string
  | CreationError pyval pydict
  | UpdateError pyval pydict
  | DeletionError pyval "pydict option"
  | ValidationError string
  | SchemaViolation string
  | ConstraintViolation string

subsection \<open>The collection\<close>

text \<open>
  The collection class is a collaborator outside this module. A document reads from it
  the address \<^verbatim>\<open>documentsURL\<close>, the \<^verbatim>\<open>name\<close>, the three switches of the dictionary
  \<^verbatim>\<open>_validation\<close>, and calls its two validators: \<^verbatim>\<open>validateField(k, v)\<close>, which
  raises or returns, and \<^verbatim>\<open>_validateDct(dct)\<close>, which raises or returns a value.
  Both are parameters here.
\<close>

record collection =
  coll_documentsURL :: string
  coll_name :: string
  on_set :: bool
  on_save :: bool
  allow_foreign_fields :: bool
  validateField :: "string \<Rightarrow> pyval \<Rightarrow> error option"
  validateDct :: "pydict \<Rightarrow> error + pyval"

subsection \<open>The objects\<close>

text \<open>
  One record for the instances of both classes; \<open>py_class\<close> is the object's
  \<^verbatim>\<open>__class__\<close>, which decides the method an overridden name resolves to.
  \<open>doc_id\<close>, \<open>doc_rev\<close> and \<open>doc_key\<close> are the attributes \<^verbatim>\<open>_id\<close>, \<^verbatim>\<open>_rev\<close> and
  \<^verbatim>\<open>_key\<close>; \<open>edge_from\<close> and \<open>edge_to\<close> are \<^verbatim>\<open>_from\<close> and \<^verbatim>\<open>_to\<close>, which only an
  \<^verbatim>\<open>Edge\<close> has. \<open>URL\<close> is \<open>None\<close> or the address of the resource.
\<close>

datatype py_class = DocumentClass | EdgeClass

record document =
  py_class :: py_class
  collection :: collection
  documentsURL :: string
  store :: pydict
  patchStore :: pydict
  modified :: bool
  doc_id :: pyval
  doc_rev :: pyval
  doc_key :: pyval
  URL :: "string option"
  edge_from :: pyval
  edge_to :: pyval

subsection \<open>Identity attributes\<close>

text \<open>The \<^verbatim>\<open>except KeyError\<close> branch of \<^verbatim>\<open>Document.setPrivates\<close>.\<close>

definition unset_privates :: "document \<Rightarrow> document" where
  "unset_privates self = self\<lparr>doc_id := PNone, doc_rev := PNone, doc_key := PNone, URL := None\<rparr>"

text \<open>
  \<^verbatim>\<open>Document.setPrivates(self, fieldDict)\<close>. The three reserved keys are read and
  deleted in the order \<^verbatim>\<open>_id\<close>, \<^verbatim>\<open>_rev\<close>, \<^verbatim>\<open>_key\<close>; the first missing one raises
  \<^verbatim>\<open>KeyError\<close>, which the method catches: the deletions made so far stay. The method
  returns the object and the caller's dictionary as it has left them.
\<close>

definition Document_setPrivates :: "document \<Rightarrow> pydict \<Rightarrow> document \<times> pydict" where
  "Document_setPrivates self fieldDict =
    (case map_of fieldDict ''_id'' of
       None \<Rightarrow> (unset_privates self, fieldDict)
     | Some i \<Rightarrow>
        (let s1 = self\<lparr>doc_id := i, URL := Some (documentsURL self @ ''/'' @ py_str i)\<rparr>;
             f1 = AList.delete ''_id'' fieldDict
         in case map_of f1 ''_rev'' of
              None \<Rightarrow> (unset_privates s1, f1)
            | Some r \<Rightarrow>
               (let s2 = s1\<lparr>doc_rev := r\<rparr>;
                    f2 = AList.delete ''_rev'' f1
                in case map_of f2 ''_key'' of
                     None \<Rightarrow> (unset_privates s2, f2)
                   | Some k \<Rightarrow> (s2\<lparr>doc_key := k\<rparr>, AList.delete ''_key'' f2))))"

text \<open>
  \<^verbatim>\<open>Edge.setPrivates\<close>: \<^verbatim>\<open>_from\<close> and \<^verbatim>\<open>_to\<close> are read (not deleted), both unset when
  either is missing; then the method of \<^verbatim>\<open>Document\<close> runs.
\<close>

definition Edge_setPrivates :: "document \<Rightarrow> pydict \<Rightarrow> document \<times> pydict" where
  "Edge_setPrivates self jsonFieldInit =
    (let s1 = (case map_of jsonFieldInit ''_from'' of
                 None \<Rightarrow> self\<lparr>edge_from := PNone, edge_to := PNone\<rparr>
               | Some f \<Rightarrow>
                  (case map_of jsonFieldInit ''_to'' of
                     None \<Rightarrow> self\<lparr>edge_from := PNone, edge_to := PNone\<rparr>
                   | Some t \<Rightarrow> self\<lparr>edge_from := f, edge_to := t\<rparr>))
     in Document_setPrivates s1 jsonFieldInit)"

text \<open>\<^verbatim>\<open>self.setPrivates(...)\<close>, resolved by the class of \<open>self\<close>.\<close>

definition setPrivates :: "document \<Rightarrow> pydict \<Rightarrow> document \<times> pydict" where
  "setPrivates self fieldDict =
    (case py_class self of
       DocumentClass \<Rightarrow> Document_setPrivates self fieldDict
     | EdgeClass \<Rightarrow> Edge_setPrivates self fieldDict)"

subsection \<open>Field assignment, set and reset\<close>

text \<open>
  \<^verbatim>\<open>Document.__setitem__(self, k, v)\<close>. The validator runs first when \<^verbatim>\<open>on_set\<close> is
  switched on, and its exception leaves the object as it was. The value mirrored into
  the patch store is \<^verbatim>\<open>self._store[k]\<close>, which is \<open>v\<close>, just written.
\<close>

definition Document_setitem :: "document \<Rightarrow> string \<Rightarrow> pyval \<Rightarrow> (error + unit) \<times> document" where
  "Document_setitem self k v =
    (case (if on_set (collection self) then validateField (collection self) k v else None) of
       Some e \<Rightarrow> (Inl e, self)
     | None \<Rightarrow>
        (let s1 = self\<lparr>store := AList.update k v (store self)\<rparr>;
             s2 = (if URL s1 \<noteq> None then s1\<lparr>patchStore := AList.update k v (patchStore s1)\<rparr> else s1)
         in (Inr (), s2\<lparr>modified := True\<rparr>)))"

text \<open>
  The loop \<^verbatim>\<open>for k in fieldDict.keys() : self[k] = fieldDict[k]\<close> of \<^verbatim>\<open>Document.set\<close>;
  it stops at the first assignment that raises.
\<close>

fun set_loop :: "document \<Rightarrow> pydict \<Rightarrow> string list \<Rightarrow> (error + unit) \<times> document" where
  "set_loop self fieldDict [] = (Inr (), self)"
| "set_loop self fieldDict (k # ks) =
    (case map_of fieldDict k of
       None \<Rightarrow> (Inl (KeyError k), self)
     | Some v \<Rightarrow>
        (case Document_setitem self k v of
           (Inl e, s1) \<Rightarrow> (Inl e, s1)
         | (Inr _, s1) \<Rightarrow> set_loop s1 fieldDict ks))"

text \<open>
  \<^verbatim>\<open>Document.set(self, fieldDict)\<close>; the third component is the caller's dictionary
  after the call.
\<close>

definition Document_set :: "document \<Rightarrow> pydict \<Rightarrow> (error + unit) \<times> document \<times> pydict" where
  "Document_set self fieldDict =
    (case setPrivates self fieldDict of
       (s1, f1) \<Rightarrow>
        if on_set (collection s1) then
          (case set_loop s1 f1 (map fst f1) of (r, s2) \<Rightarrow> (r, s2, f1))
        else (Inr (), s1\<lparr>store := dict_update (store s1) f1\<rparr>, f1))"

text \<open>
  \<^verbatim>\<open>Document.reset(self, collection, jsonFieldInit)\<close>, which \<^verbatim>\<open>Edge.reset\<close> calls
  unchanged. When \<^verbatim>\<open>set\<close> raises, the last assignment is not reached.
\<close>

definition Document_reset :: "document \<Rightarrow> collection \<Rightarrow> pydict \<Rightarrow> (error + unit) \<times> document \<times> pydict" where
  "Document_reset self c jsonFieldInit =
    (let s1 = self\<lparr>collection := c, documentsURL := coll_documentsURL c, store := [], patchStore := []\<rparr>
     in case Document_set s1 jsonFieldInit of
          (Inl e, s2, f1) \<Rightarrow> (Inl e, s2, f1)
        | (Inr _, s2, f1) \<Rightarrow> (Inr (), s2\<lparr>modified := True\<rparr>, f1))"

definition Edge_reset :: "document \<Rightarrow> collection \<Rightarrow> pydict \<Rightarrow> (error + unit) \<times> document \<times> pydict" where
  "Edge_reset self edgeCollection jsonFieldInit = Document_reset self edgeCollection jsonFieldInit"

text \<open>
  The constructors. A new object has no attribute before \<^verbatim>\<open>reset\<close> assigns it, and
  \<^verbatim>\<open>reset\<close> reads none before assigning it; when \<^verbatim>\<open>reset\<close> raises, so does the
  constructor, and no object is returned. The omitted argument \<^verbatim>\<open>jsonFieldInit\<close> is the
  empty dictionary, which no call changes.
\<close>

definition blank :: "py_class \<Rightarrow> collection \<Rightarrow> document" where
  "blank cl c =
    \<lparr>py_class = cl, collection = c, documentsURL = [], store = [], patchStore = [],
     modified = False, doc_id = PNone, doc_rev = PNone, doc_key = PNone, URL = None,
     edge_from = PNone, edge_to = PNone\<rparr>"

definition Document_init :: "collection \<Rightarrow> pydict \<Rightarrow> (error + document) \<times> pydict" where
  "Document_init c jsonFieldInit =
    (case Document_reset (blank DocumentClass c) c jsonFieldInit of
       (Inl e, s, f1) \<Rightarrow> (Inl e, f1)
     | (Inr _, s, f1) \<Rightarrow> (Inr s, f1))"

definition Edge_init :: "collection \<Rightarrow> pydict \<Rightarrow> (error + document) \<times> pydict" where
  "Edge_init edgeCollection jsonFieldInit =
    (case Edge_reset (blank EdgeClass edgeCollection) edgeCollection jsonFieldInit of
       (Inl e, s, f1) \<Rightarrow> (Inl e, f1)
     | (Inr _, s, f1) \<Rightarrow> (Inr s, f1))"

subsection \<open>HTTP\<close>

text \<open>
  The module talks to the server through \<^verbatim>\<open>requests.post\<close>, \<^verbatim>\<open>put\<close>, \<^verbatim>\<open>patch\<close> and
  \<^verbatim>\<open>delete\<close>. A request is recorded with its verb, address, query parameters and body;
  the body is the dictionary that \<^verbatim>\<open>json.dumps\<close> serialises. The server is a parameter:
  any function from the requests received so far and the present request to a response.
  Of a response the module reads \<^verbatim>\<open>status_code\<close> and \<^verbatim>\<open>json()\<close>, which is \<open>None\<close> here
  when the body does not decode (\<^verbatim>\<open>json()\<close> raises \<^verbatim>\<open>ValueError\<close> then).
\<close>

datatype http_verb = POST | PUT | PATCH | DELETE

record request =
  verb :: http_verb
  url :: string
  params :: pydict
  payload :: "pydict option"

record response =
  status_code :: int
  json :: "pydict option"

type_synonym server = "request list \<Rightarrow> request \<Rightarrow> response"

definition requests_send :: "server \<Rightarrow> request list \<Rightarrow> request \<Rightarrow> response \<times> request list" where
  "requests_send srv lg rq = (srv lg rq, lg @ [rq])"

text \<open>
  \<^verbatim>\<open>(r.status_code == 201 or r.status_code == 202) and not data['error']\<close>: the key is
  looked up only when the status is one of the two.
\<close>

definition accepted :: "response \<Rightarrow> pydict \<Rightarrow> error + bool" where
  "accepted r data =
    (if status_code r = 201 \<or> status_code r = 202 then
       (case map_of data ''error'' of
          None \<Rightarrow> Inl (KeyError ''error'')
        | Some e \<Rightarrow> Inr (\<not> truthy e))
     else Inr False)"

text \<open>
  \<^verbatim>\<open>raise E(data['errorMessage'], data)\<close>: the arguments are evaluated first, so a
  missing message raises \<^verbatim>\<open>KeyError\<close> instead.
\<close>

definition server_error :: "(pyval \<Rightarrow> pydict \<Rightarrow> error) \<Rightarrow> pydict \<Rightarrow> error" where
  "server_error E data =
    (case map_of data ''errorMessage'' of
       None \<Rightarrow> KeyError ''errorMessage''
     | Some m \<Rightarrow> E m data)"

subsection \<open>Validation\<close>

text \<open>\<^verbatim>\<open>Document.validate(self, patch = False)\<close>.\<close>

definition Document_validate :: "document \<Rightarrow> bool \<Rightarrow> error + pyval" where
  "Document_validate self patch =
    (if patch then validateDct (collection self) (patchStore self)
     else validateDct (collection self) (store self))"

text \<open>
  A call of \<^verbatim>\<open>self.validate\<close> with keyword arguments. Python binds the keywords to the
  parameters of the signature before the body runs; the signature has the one parameter
  \<^verbatim>\<open>patch\<close>, and a keyword that names no parameter raises \<^verbatim>\<open>TypeError\<close>.
\<close>

definition validate_parameters :: "string list" where
  "validate_parameters = [''patch'']"

definition call_validate :: "document \<Rightarrow> pydict \<Rightarrow> error + pyval" where
  "call_validate self kwargs =
    (case filter (\<lambda>k. k \<notin> set validate_parameters) (map fst kwargs) of
       k # _ \<Rightarrow> Inl (TypeError (''validate() got an unexpected keyword argument '' @ k))
     | [] \<Rightarrow>
        Document_validate self
          (case map_of kwargs ''patch'' of None \<Rightarrow> False | Some p \<Rightarrow> truthy p))"

subsection \<open>Saving\<close>

text \<open>
  \<^verbatim>\<open>Document.save(self, **docArgs)\<close>; \<open>docArgs\<close> is the dictionary of the keyword
  arguments. The result is the outcome, the object and the log of requests.
\<close>

definition Document_save ::
  "server \<Rightarrow> document \<Rightarrow> pydict \<Rightarrow> request list \<Rightarrow> (error + unit) \<times> document \<times> request list" where
  "Document_save srv self docArgs lg =
    (if modified self then
       (case (if on_save (collection self)
              then call_validate self [(''patch'', PBool False), (''logErrors'', PBool False)]
              else Inr PNone) of
          Inl e \<Rightarrow> (Inl e, self, lg)
        | Inr _ \<Rightarrow>
           (let params = dict_update docArgs [(''collection'', PStr (coll_name (collection self)))];
                payload = store self;
                update = (URL self \<noteq> None);
                rq = (case URL self of
                        None \<Rightarrow> \<lparr>verb = POST, url = documentsURL self, params = params, payload = Some payload\<rparr>
                      | Some u \<Rightarrow> \<lparr>verb = PUT, url = u, params = params, payload = Some payload\<rparr>)
            in case requests_send srv lg rq of
                 (r, lg1) \<Rightarrow>
                  (case json r of
                     None \<Rightarrow> (Inl (ValueError ''No JSON object could be decoded''), self, lg1)
                   | Some data \<Rightarrow>
                      (case accepted r data of
                         Inl e \<Rightarrow> (Inl e, self, lg1)
                       | Inr True \<Rightarrow>
                          (if update then
                             (case map_of data ''_rev'' of
                                None \<Rightarrow> (Inl (KeyError ''_rev''), self, lg1)
                              | Some rv \<Rightarrow> (Inr (), self\<lparr>doc_rev := rv, modified := False\<rparr>, lg1))
                           else (Inr (), (fst (setPrivates self data))\<lparr>modified := False\<rparr>, lg1))
                       | Inr False \<Rightarrow>
                          (if update then (Inl (server_error UpdateError data), self, lg1)
                           else (Inl (server_error CreationError data), self, lg1))))))
     else (Inr (), self, lg))"

text \<open>
  An argument that may be an object: a view of the object it refers to, or a scalar
  (\<open>Val PNone\<close> is \<^verbatim>\<open>None\<close>). \<^verbatim>\<open>Edge.save\<close> only reads its two vertices.
\<close>

datatype vertex = Obj document | Val pyval

text \<open>\<^verbatim>\<open>v is None\<close>.\<close>

fun is_None :: "vertex \<Rightarrow> bool" where
  "is_None (Val PNone) = True"
| "is_None _ = False"

text \<open>
  The chain \<^verbatim>\<open>if v.__class__ is Document : ... elif (type(v) is types.StringType) ...\<close>
  of \<^verbatim>\<open>Edge.save\<close>. The module never imports \<^verbatim>\<open>types\<close>, so evaluating the second
  condition raises \<^verbatim>\<open>NameError\<close>, for whatever \<open>v\<close> is not an instance of exactly
  \<^verbatim>\<open>Document\<close>.
\<close>

definition endpoint_id :: "vertex \<Rightarrow> error + pyval" where
  "endpoint_id v =
    (case v of
       Obj d \<Rightarrow>
        (if py_class d = DocumentClass then Inr (doc_id d)
         else Inl (NameError ''global name types is not defined''))
     | Val _ \<Rightarrow> Inl (NameError ''global name types is not defined''))"

text \<open>\<^verbatim>\<open>Edge.save(self, fromVertice = None, toVertice = None, **edgeArgs)\<close>.\<close>

definition Edge_save ::
  "server \<Rightarrow> document \<Rightarrow> vertex \<Rightarrow> vertex \<Rightarrow> pydict \<Rightarrow> request list
    \<Rightarrow> (error + unit) \<times> document \<times> request list" where
  "Edge_save srv self fromVertice toVertice edgeArgs lg =
    (if URL self = None \<and> (is_None fromVertice \<or> is_None toVertice) then
       (Inl (ValueError ''The first time you save an Edge you must specify the from and to vertices''),
        self, lg)
     else
       (case endpoint_id fromVertice of
          Inl e \<Rightarrow> (Inl e, self, lg)
        | Inr fromId \<Rightarrow>
           (case endpoint_id toVertice of
              Inl e \<Rightarrow> (Inl e, self, lg)
            | Inr toId \<Rightarrow>
               (let edgeArgs1 = AList.update ''to'' toId (AList.update ''from'' fromId edgeArgs);
                    s1 = self\<lparr>edge_from := fromId, edge_to := toId\<rparr>
                in Document_save srv s1 edgeArgs1 lg))))"

text \<open>
  \<^verbatim>\<open>self.save(**docArgs)\<close>, resolved by the class of \<open>self\<close>. For an edge the keywords
  \<^verbatim>\<open>fromVertice\<close> and \<^verbatim>\<open>toVertice\<close> bind to the parameters of that name, which are
  \<^verbatim>\<open>None\<close> when omitted.
\<close>

definition keyword :: "pydict \<Rightarrow> string \<Rightarrow> vertex" where
  "keyword kwargs k = (case map_of kwargs k of None \<Rightarrow> Val PNone | Some v \<Rightarrow> Val v)"

definition save ::
  "server \<Rightarrow> document \<Rightarrow> pydict \<Rightarrow> request list \<Rightarrow> (error + unit) \<times> document \<times> request list" where
  "save srv self docArgs lg =
    (case py_class self of
       DocumentClass \<Rightarrow> Document_save srv self docArgs lg
     | EdgeClass \<Rightarrow>
        Edge_save srv self (keyword docArgs ''fromVertice'') (keyword docArgs ''toVertice'')
          (AList.delete ''toVertice'' (AList.delete ''fromVertice'' docArgs)) lg)"

text \<open>\<^verbatim>\<open>Document.forceSave(self, **docArgs)\<close>.\<close>

definition Document_forceSave ::
  "server \<Rightarrow> document \<Rightarrow> pydict \<Rightarrow> request list \<Rightarrow> (error + unit) \<times> document \<times> request list" where
  "Document_forceSave srv self docArgs lg = save srv (self\<lparr>modified := True\<rparr>) docArgs lg"

text \<open>\<^verbatim>\<open>Document.saveCopy(self)\<close>, which returns the pair of the old and the new key.\<close>

definition Document_saveCopy ::
  "server \<Rightarrow> document \<Rightarrow> request list \<Rightarrow> (error + pyval \<times> pyval) \<times> document \<times> request list" where
  "Document_saveCopy srv self lg =
    (let old_key = doc_key self
     in case Document_reset self (collection self) [] of
          (Inl e, s1, _) \<Rightarrow> (Inl e, s1, lg)
        | (Inr _, s1, _) \<Rightarrow>
           (case save srv s1 [] lg of
              (Inl e, s2, lg1) \<Rightarrow> (Inl e, s2, lg1)
            | (Inr _, s2, lg1) \<Rightarrow> (Inr (old_key, doc_key s2), s2, lg1)))"

subsection \<open>Patching and deleting\<close>

text \<open>\<^verbatim>\<open>Document.patch(self, keepNull = True, **docArgs)\<close>.\<close>

definition Document_patch ::
  "server \<Rightarrow> document \<Rightarrow> pyval \<Rightarrow> pydict \<Rightarrow> request list
    \<Rightarrow> (error + unit) \<times> document \<times> request list" where
  "Document_patch srv self keepNull docArgs lg =
    (case (if on_save (collection self)
           then call_validate self [(''patch'', PBool True), (''logErrors'', PBool False)]
           else Inr PNone) of
       Inl e \<Rightarrow> (Inl e, self, lg)
     | Inr _ \<Rightarrow>
        (case URL self of
           None \<Rightarrow> (Inl (ValueError ''Cannot patch a document that was not previously saved''), self, lg)
         | Some u \<Rightarrow>
            (if patchStore self \<noteq> [] then
               (let params = dict_update docArgs
                               [(''collection'', PStr (coll_name (collection self))), (''keepNull'', keepNull)];
                    payload = patchStore self
                in case requests_send srv lg \<lparr>verb = PATCH, url = u, params = params, payload = Some payload\<rparr> of
                     (r, lg1) \<Rightarrow>
                      (case json r of
                         None \<Rightarrow> (Inl (ValueError ''No JSON object could be decoded''), self, lg1)
                       | Some data \<Rightarrow>
                          (case accepted r data of
                             Inl e \<Rightarrow> (Inl e, self, lg1)
                           | Inr True \<Rightarrow>
                              (case map_of data ''_rev'' of
                                 None \<Rightarrow> (Inl (KeyError ''_rev''), self, lg1)
                               | Some rv \<Rightarrow> (Inr (), self\<lparr>doc_rev := rv, modified := False\<rparr>, lg1))
                           | Inr False \<Rightarrow> (Inl (server_error UpdateError data), self, lg1))))
             else (Inr (), self, lg))))"

text \<open>
  \<^verbatim>\<open>(r.status_code != 200 and r.status_code != 202) or data['error']\<close>, the test of
  \<^verbatim>\<open>Document.delete\<close>: the key is looked up only when the status is one of the two.
\<close>

definition refused :: "response \<Rightarrow> pydict \<Rightarrow> error + bool" where
  "refused r data =
    (if status_code r \<noteq> 200 \<and> status_code r \<noteq> 202 then Inr True
     else (case map_of data ''error'' of
             None \<Rightarrow> Inl (KeyError ''error'')
           | Some e \<Rightarrow> Inr (truthy e)))"

text \<open>\<^verbatim>\<open>Document.delete(self)\<close>.\<close>

definition Document_delete ::
  "server \<Rightarrow> document \<Rightarrow> request list \<Rightarrow> (error + unit) \<times> document \<times> request list" where
  "Document_delete srv self lg =
    (case URL self of
       None \<Rightarrow> (Inl (DeletionError (PStr ''Can't delete a document that was not saved'') None), self, lg)
     | Some u \<Rightarrow>
        (case requests_send srv lg \<lparr>verb = DELETE, url = u, params = [], payload = None\<rparr> of
           (r, lg1) \<Rightarrow>
            (case json r of
               None \<Rightarrow> (Inl (ValueError ''No JSON object could be decoded''), self, lg1)
             | Some data \<Rightarrow>
                (case refused r data of
                   Inl e \<Rightarrow> (Inl e, self, lg1)
                 | Inr True \<Rightarrow> (Inl (server_error (\<lambda>m d. DeletionError m (Some d)) data), self, lg1)
                 | Inr False \<Rightarrow>
                    (case Document_reset self (collection self) [] of
                       (Inl e, s1, _) \<Rightarrow> (Inl e, s1, lg1)
                     | (Inr _, s1, _) \<Rightarrow> (Inr (), s1\<lparr>modified := True\<rparr>, lg1))))))"

subsection \<open>Linking an edge\<close>

text \<open>
  \<^verbatim>\<open>Edge.links\<close> saves the two vertices it is given, which may be one and the same
  object, so the objects live in a store from addresses to objects and an argument is
  an address or a scalar.
\<close>

datatype pyobj = Ref nat | Imm pyval

type_synonym heap = "nat \<Rightarrow> document"

definition view :: "heap \<Rightarrow> pyobj \<Rightarrow> vertex" where
  "view h x = (case x of Ref p \<Rightarrow> Obj (h p) | Imm v \<Rightarrow> Val v)"

text \<open>\<^verbatim>\<open>x.save()\<close>; a scalar has no such attribute.\<close>

definition obj_save ::
  "server \<Rightarrow> heap \<Rightarrow> pyobj \<Rightarrow> request list \<Rightarrow> (error + unit) \<times> heap \<times> request list" where
  "obj_save srv h x lg =
    (case x of
       Imm v \<Rightarrow> (Inl (AttributeError ''object has no attribute save''), h, lg)
     | Ref p \<Rightarrow> (case save srv (h p) [] lg of (r, s, lg1) \<Rightarrow> (r, h(p := s), lg1)))"

text \<open>\<^verbatim>\<open>Edge.links(self, fromVertice, toVertice, **edgeArgs)\<close>; \<open>self\<close> is an address.\<close>

definition Edge_links ::
  "server \<Rightarrow> heap \<Rightarrow> nat \<Rightarrow> pyobj \<Rightarrow> pyobj \<Rightarrow> pydict \<Rightarrow> request list
    \<Rightarrow> (error + unit) \<times> heap \<times> request list" where
  "Edge_links srv h self fromVertice toVertice edgeArgs lg =
    (if URL (h self) \<noteq> None then
       (Inl (AttributeError
          ''It appears that the edge has already been saved. You can now use save() and patch()''),
        h, lg)
     else
       (case obj_save srv h fromVertice lg of
          (Inl e, h1, lg1) \<Rightarrow> (Inl e, h1, lg1)
        | (Inr _, h1, lg1) \<Rightarrow>
           (case obj_save srv h1 toVertice lg1 of
              (Inl e, h2, lg2) \<Rightarrow> (Inl e, h2, lg2)
            | (Inr _, h2, lg2) \<Rightarrow>
               (case Edge_save srv (h2 self) (view h2 fromVertice) (view h2 toVertice) edgeArgs lg2 of
                  (r, s, lg3) \<Rightarrow> (r, h2(self := s), lg3)))))"

section \<open>Notions used in the properties\<close>

subsection \<open>Sequences of field assignments\<close>

text \<open>
  A caller's sequence \<^verbatim>\<open>doc[k1] = v1; doc[k2] = v2; ...\<close>, each assignment inside its
  own \<^verbatim>\<open>try\<close>: a rejected assignment leaves the document as it was and the next one
  runs.
\<close>

fun assign_all :: "document \<Rightarrow> (string \<times> pyval) list \<Rightarrow> document" where
  "assign_all self [] = self"
| "assign_all self ((k, v) # kvs) = assign_all (snd (Document_setitem self k v)) kvs"

subsection \<open>Deleting\<close>

text \<open>The request \<^verbatim>\<open>requests.delete(self.URL)\<close>.\<close>

definition delete_request :: "string \<Rightarrow> request" where
  "delete_request u = \<lparr>verb = DELETE, url = u, params = [], payload = None\<rparr>"

subsection \<open>Saving a copy\<close>

text \<open>
  The request by which \<^verbatim>\<open>saveCopy\<close> creates the new resource: an empty store posted to
  the collection's address.
\<close>

definition copy_request :: "collection \<Rightarrow> request" where
  "copy_request c =
    \<lparr>verb = POST, url = coll_documentsURL c, params = [(''collection'', PStr (coll_name c))],
     payload = Some []\<rparr>"

subsection \<open>Reserved keys and the identity attributes\<close>

text \<open>The keys \<^verbatim>\<open>Document.setPrivates\<close> reads, in the order it reads them.\<close>

definition reserved_keys :: "string list" where
  "reserved_keys = [''_id'', ''_rev'', ''_key'']"

text \<open>
  The identity attributes are all unset and there is no resource address, or all are
  set and there is one.
\<close>

definition identity_inv :: "document \<Rightarrow> bool" where
  "identity_inv d =
    ((doc_id d = PNone \<and> doc_rev d = PNone \<and> doc_key d = PNone \<and> URL d = None) \<or>
     (doc_id d \<noteq> PNone \<and> doc_rev d \<noteq> PNone \<and> doc_key d \<noteq> PNone \<and> URL d \<noteq> None))"

text \<open>No reserved key of the dictionary holds \<^verbatim>\<open>None\<close>.\<close>

definition reserved_not_None :: "pydict \<Rightarrow> bool" where
  "reserved_not_None fd = (\<forall>k\<in>set reserved_keys. map_of fd k \<noteq> Some PNone)"

section \<open>Example collections, objects and servers\<close>

text \<open>A collection that validates nothing.\<close>

definition users :: collection where
  "users =
    \<lparr>coll_documentsURL = ''http://localhost:8529/_api/document'', coll_name = ''users'',
     on_set = False, on_save = False, allow_foreign_fields = True,
     validateField = (\<lambda>k v. None), validateDct = (\<lambda>d. Inr (PBool True))\<rparr>"

text \<open>A collection that validates every assignment and accepts only strings.\<close>

definition typed_users :: collection where
  "typed_users =
    users\<lparr>on_set := True,
          validateField := (\<lambda>k v. case v of PStr s \<Rightarrow> None | _ \<Rightarrow> Some (ValidationError k))\<rparr>"

text \<open>
  A collection that validates every assignment against a schema with the one field
  \<^verbatim>\<open>name\<close>.
\<close>

definition schema_users :: collection where
  "schema_users =
    users\<lparr>on_set := True, allow_foreign_fields := False,
          validateField := (\<lambda>k v. if k = ''name'' then None else Some (SchemaViolation k))\<rparr>"

text \<open>A collection that validates on save, with a validator that accepts every store.\<close>

definition checked_users :: collection where
  "checked_users = users\<lparr>on_save := True\<rparr>"

text \<open>A collection that validates on save, with a validator that rejects every store.\<close>

definition strict_users :: collection where
  "strict_users = users\<lparr>on_save := True, validateDct := (\<lambda>d. Inl (ValidationError ''document''))\<rparr>"

text \<open>
  The object \<^verbatim>\<open>Document(c)\<close>, and a persisted document as a successful first save leaves
  it.
\<close>

definition new_document :: "collection \<Rightarrow> document" where
  "new_document c = (blank DocumentClass c)\<lparr>documentsURL := coll_documentsURL c, modified := True\<rparr>"

definition saved_document :: "collection \<Rightarrow> document" where
  "saved_document c =
    (new_document c)\<lparr>store := [(''name'', PStr ''a'')], modified := False,
      doc_id := PStr ''users/1'', doc_rev := PStr ''7'', doc_key := PStr ''1'',
      URL := Some (coll_documentsURL c @ ''/users/1'')\<rparr>"

text \<open>
  The fields of a server's answer for a stored document; the same without \<^verbatim>\<open>_rev\<close>; and
  a dictionary whose \<^verbatim>\<open>_id\<close> is \<^verbatim>\<open>None\<close>, as a JSON document with a null id decodes.
\<close>

definition stored_fields :: pydict where
  "stored_fields =
    [(''_id'', PStr ''users/1''), (''_rev'', PStr ''7''), (''_key'', PStr ''1''), (''name'', PStr ''a'')]"

definition fields_without_rev :: pydict where
  "fields_without_rev = [(''_id'', PStr ''users/1''), (''_key'', PStr ''1''), (''name'', PStr ''a'')]"

definition null_id_fields :: pydict where
  "null_id_fields = [(''_id'', PNone), (''_rev'', PStr ''7''), (''_key'', PStr ''1'')]"

text \<open>The identity of a stored document and nothing else.\<close>

definition identity_fields :: pydict where
  "identity_fields = [(''_id'', PStr ''users/1''), (''_rev'', PStr ''7''), (''_key'', PStr ''1'')]"

text \<open>
  A server that accepts every request (status 200 for a deletion, 201 otherwise), and
  one that refuses every request.
\<close>

definition accepting_server :: server where
  "accepting_server lg rq =
    \<lparr>status_code = (if verb rq = DELETE then 200 else 201),
     json = Some [(''error'', PBool False), (''_id'', PStr ''users/2''), (''_rev'', PStr ''8''),
                  (''_key'', PStr ''2'')]\<rparr>"

definition refusing_server :: server where
  "refusing_server lg rq =
    \<lparr>status_code = 404,
     json = Some [(''error'', PBool True), (''errorMessage'', PStr ''document not found''),
                  (''code'', PInt 404)]\<rparr>"

text \<open>
  Two servers whose answers are not what \<^verbatim>\<open>delete\<close> expects: one refuses with status
  500 and an error flag but no message, the other answers 200 without an error flag.
\<close>

definition terse_server :: server where
  "terse_server lg rq = \<lparr>status_code = 500, json = Some [(''error'', PBool True)]\<rparr>"

definition flagless_server :: server where
  "flagless_server lg rq = \<lparr>status_code = 200, json = Some [(''_id'', PStr ''users/1'')]\<rparr>"

text \<open>
  An edge as the server stores it, the object \<^verbatim>\<open>Edge(c, stored_edge_fields)\<close> built from
  it, and a store of objects with that edge at address 0 and new documents elsewhere.
\<close>

definition stored_edge_fields :: pydict where
  "stored_edge_fields =
    [(''_id'', PStr ''knows/5''), (''_rev'', PStr ''3''), (''_key'', PStr ''5''),
     (''_from'', PStr ''users/1''), (''_to'', PStr ''users/2'')]"

definition saved_edge :: "collection \<Rightarrow> document" where
  "saved_edge c =
    (blank EdgeClass c)\<lparr>documentsURL := coll_documentsURL c,
      store := [(''_from'', PStr ''users/1''), (''_to'', PStr ''users/2'')], modified := True,
      doc_id := PStr ''knows/5'', doc_rev := PStr ''3'', doc_key := PStr ''5'',
      URL := Some (coll_documentsURL c @ ''/knows/5''),
      edge_from := PStr ''users/1'', edge_to := PStr ''users/2''\<rparr>"

definition example_heap :: heap where
  "example_heap p = (if p = 0 then saved_edge users else new_document users)"

section \<open>Properties\<close>

subsection \<open>What setPrivates leaves alone\<close>

text \<open>\<^verbatim>\<open>setPrivates\<close> touches the identity attributes (and those of an edge) only.\<close>

lemma Document_setPrivates_frame:
  "collection (fst (Document_setPrivates self f)) = collection self \<and>
   modified (fst (Document_setPrivates self f)) = modified self \<and>
   store (fst (Document_setPrivates self f)) = store self \<and>
   patchStore (fst (Document_setPrivates self f)) = patchStore self \<and>
   py_class (fst (Document_setPrivates self f)) = py_class self \<and>
   documentsURL (fst (Document_setPrivates self f)) = documentsURL self"
  by (simp add: Document_setPrivates_def unset_privates_def Let_def split: option.splits)

lemma setPrivates_frame:
  "collection (fst (setPrivates self f)) = collection self \<and>
   modified (fst (setPrivates self f)) = modified self \<and>
   store (fst (setPrivates self f)) = store self \<and>
   patchStore (fst (setPrivates self f)) = patchStore self \<and>
   py_class (fst (setPrivates self f)) = py_class self \<and>
   documentsURL (fst (setPrivates self f)) = documentsURL self"
  by (simp add: setPrivates_def Edge_setPrivates_def Document_setPrivates_frame Let_def
      split: py_class.splits option.splits)

subsection \<open>Field assignment\<close>

lemma setitem_cases:
  "Document_setitem self k v =
    (case (if on_set (collection self) then validateField (collection self) k v else None) of
       Some e \<Rightarrow> (Inl e, self)
     | None \<Rightarrow>
        (Inr (), self\<lparr>store := AList.update k v (store self),
                      patchStore := (if URL self \<noteq> None then AList.update k v (patchStore self)
                                     else patchStore self),
                      modified := True\<rparr>))"
  by (auto simp: Document_setitem_def Let_def split: option.splits)

lemma setitem_URL: "URL (snd (Document_setitem self k v)) = URL self"
  by (simp add: setitem_cases split: option.splits)

lemma setitem_unsaved_patchStore:
  "URL self = None \<Longrightarrow> patchStore (snd (Document_setitem self k v)) = patchStore self"
  by (simp add: setitem_cases split: option.splits)

lemma assign_all_unsaved:
  "URL self = None \<Longrightarrow>
    URL (assign_all self kvs) = None \<and> patchStore (assign_all self kvs) = patchStore self"
  by (induction kvs arbitrary: self) (auto simp: setitem_URL setitem_unsaved_patchStore)

lemma map_of_update_same: "map_of (AList.update k v al) k = Some v"
  by (simp add: update_conv')

text \<open>A constructed document without a resource address has an empty patch store.\<close>

lemma set_loop_unsaved:
  "URL (snd (set_loop self f ks)) = URL self \<and>
   (URL self = None \<longrightarrow> patchStore (snd (set_loop self f ks)) = patchStore self)"
proof (induction ks arbitrary: self)
  case Nil
  show ?case by simp
next
  case (Cons k ks)
  show ?case
  proof (cases "map_of f k")
    case None
    then show ?thesis by simp
  next
    case (Some v)
    obtain r s1 where p: "Document_setitem self k v = (r, s1)"
      by (cases "Document_setitem self k v")
    have u: "URL s1 = URL self"
      using setitem_URL [of self k v] p by simp
    have q: "URL self = None \<longrightarrow> patchStore s1 = patchStore self"
      using setitem_unsaved_patchStore [of self k v] p by simp
    show ?thesis
      using Some p u q Cons.IH [of s1] by (cases r) simp_all
  qed
qed

lemma init_unsaved_patchStore:
  assumes i: "fst (Document_init c fd) = Inr d" and u: "URL d = None"
  shows "patchStore d = []"
proof -
  let ?s0 = "(blank DocumentClass c)\<lparr>collection := c, documentsURL := coll_documentsURL c,
      store := [], patchStore := []\<rparr>"
  obtain s1 f1 where p: "setPrivates ?s0 fd = (s1, f1)"
    by (cases "setPrivates ?s0 fd")
  have fr: "patchStore s1 = []"
    using setPrivates_frame [of ?s0 fd] p by simp
  obtain r s2 where l: "set_loop s1 f1 (map fst f1) = (r, s2)"
    by (cases "set_loop s1 f1 (map fst f1)")
  have lu: "URL s2 = URL s1 \<and> (URL s1 = None \<longrightarrow> patchStore s2 = patchStore s1)"
    using set_loop_unsaved [of s1 f1 "map fst f1"] l by simp
  show ?thesis
  proof (cases "on_set (collection s1)")
    case True
    with i p l have "r = Inr () \<and> d = s2\<lparr>modified := True\<rparr>"
      by (cases r) (simp_all add: Document_init_def Document_reset_def Document_set_def)
    with u lu fr show ?thesis by simp
  next
    case False
    with i p have "d = s1\<lparr>store := dict_update (store s1) f1, modified := True\<rparr>"
      by (simp add: Document_init_def Document_reset_def Document_set_def)
    with fr show ?thesis by simp
  qed
qed

text \<open>
  Claim C1, as amended. A field assignment \<^verbatim>\<open>doc[k] = v\<close> is rejected only when
  \<^verbatim>\<open>on_set\<close> is switched on and the field validator raises; it then raises the
  validator's error and leaves the document as it was. Every other assignment (every
  assignment when \<^verbatim>\<open>on_set\<close> is off) sets the modified flag, writes \<open>v\<close> into the store
  under \<open>k\<close>, and writes it into the patch store exactly when the document has a
  resource address; without one the patch store is left as it was. So no sequence of
  assignments, rejected or not, to a document without an address changes its patch
  store: one that starts empty stays empty, as it does in every constructed document
  that has no address.
\<close>

theorem field_assignment:
  "(\<forall>e. fst (Document_setitem self k v) = Inl e \<longrightarrow>
      on_set (collection self) \<and> validateField (collection self) k v = Some e \<and>
      snd (Document_setitem self k v) = self) \<and>
   (fst (Document_setitem self k v) = Inr () \<longrightarrow>
      (on_set (collection self) \<longrightarrow> validateField (collection self) k v = None) \<and>
      modified (snd (Document_setitem self k v)) \<and>
      store (snd (Document_setitem self k v)) = AList.update k v (store self) \<and>
      map_of (store (snd (Document_setitem self k v))) k = Some v \<and>
      (URL self \<noteq> None \<longrightarrow>
         patchStore (snd (Document_setitem self k v)) = AList.update k v (patchStore self) \<and>
         map_of (patchStore (snd (Document_setitem self k v))) k = Some v) \<and>
      (URL self = None \<longrightarrow> patchStore (snd (Document_setitem self k v)) = patchStore self)) \<and>
   (\<not> on_set (collection self) \<longrightarrow> fst (Document_setitem self k v) = Inr ()) \<and>
   (URL self = None \<longrightarrow>
      URL (assign_all self kvs) = None \<and> patchStore (assign_all self kvs) = patchStore self) \<and>
   (URL self = None \<and> patchStore self = [] \<longrightarrow> patchStore (assign_all self kvs) = []) \<and>
   (\<forall>d. fst (Document_init c fd) = Inr d \<and> URL d = None \<longrightarrow>
      patchStore d = [] \<and> patchStore (assign_all d kvs) = [])"
proof -
  have rej: "\<forall>e. fst (Document_setitem self k v) = Inl e \<longrightarrow>
      on_set (collection self) \<and> validateField (collection self) k v = Some e \<and>
      snd (Document_setitem self k v) = self"
    by (auto simp: setitem_cases split: option.splits if_splits)
  have acc: "fst (Document_setitem self k v) = Inr () \<longrightarrow>
      (on_set (collection self) \<longrightarrow> validateField (collection self) k v = None) \<and>
      modified (snd (Document_setitem self k v)) \<and>
      store (snd (Document_setitem self k v)) = AList.update k v (store self) \<and>
      map_of (store (snd (Document_setitem self k v))) k = Some v \<and>
      (URL self \<noteq> None \<longrightarrow>
         patchStore (snd (Document_setitem self k v)) = AList.update k v (patchStore self) \<and>
         map_of (patchStore (snd (Document_setitem self k v))) k = Some v) \<and>
      (URL self = None \<longrightarrow> patchStore (snd (Document_setitem self k v)) = patchStore self)"
    by (auto simp: setitem_cases map_of_update_same split: option.splits if_splits)
  have unc: "\<not> on_set (collection self) \<longrightarrow> fst (Document_setitem self k v) = Inr ()"
    by (simp add: setitem_cases)
  have seq: "URL self = None \<longrightarrow>
      URL (assign_all self kvs) = None \<and> patchStore (assign_all self kvs) = patchStore self"
    using assign_all_unsaved by blast
  have emp: "URL self = None \<and> patchStore self = [] \<longrightarrow> patchStore (assign_all self kvs) = []"
    using assign_all_unsaved [of self kvs] by simp
  have con: "\<forall>d. fst (Document_init c fd) = Inr d \<and> URL d = None \<longrightarrow>
      patchStore d = [] \<and> patchStore (assign_all d kvs) = []"
    using init_unsaved_patchStore [of c fd] assign_all_unsaved [of _ kvs] by metis
  from rej acc unc seq emp con show ?thesis by blast
qed

theorem field_assignment_witness:
  "fst (Document_setitem (saved_document typed_users) ''name'' (PStr ''b'')) = Inr () \<and>
   URL (saved_document typed_users) \<noteq> None \<and>
   modified (snd (Document_setitem (saved_document typed_users) ''name'' (PStr ''b''))) \<and>
   map_of (store (snd (Document_setitem (saved_document typed_users) ''name'' (PStr ''b'')))) ''name''
     = Some (PStr ''b'') \<and>
   map_of (patchStore (snd (Document_setitem (saved_document typed_users) ''name'' (PStr ''b'')))) ''name''
     = Some (PStr ''b'') \<and>
   URL (new_document typed_users) = None \<and> patchStore (new_document typed_users) = [] \<and>
   patchStore (assign_all (new_document typed_users) [(''name'', PStr ''a''), (''age'', PInt 5)]) = []"
proof -
  have ok: "fst (Document_setitem (saved_document typed_users) ''name'' (PStr ''b'')) = Inr ()"
    by (simp add: Document_setitem_def saved_document_def new_document_def blank_def
        typed_users_def users_def)
  have saved: "URL (saved_document typed_users) \<noteq> None"
    by (simp add: saved_document_def)
  have new: "URL (new_document typed_users) = None \<and> patchStore (new_document typed_users) = []"
    by (simp add: new_document_def blank_def)
  have a: "modified (snd (Document_setitem (saved_document typed_users) ''name'' (PStr ''b''))) \<and>
      map_of (store (snd (Document_setitem (saved_document typed_users) ''name'' (PStr ''b'')))) ''name''
        = Some (PStr ''b'') \<and>
      map_of (patchStore (snd (Document_setitem (saved_document typed_users) ''name'' (PStr ''b'')))) ''name''
        = Some (PStr ''b'')"
    using field_assignment [of "saved_document typed_users" "''name''" "PStr ''b''" "[]"] ok saved
    by blast
  have b: "patchStore (assign_all (new_document typed_users) [(''name'', PStr ''a''), (''age'', PInt 5)]) = []"
    using field_assignment [of "new_document typed_users" "''name''" "PStr ''a''"
      "[(''name'', PStr ''a''), (''age'', PInt 5)]"] new
    by blast
  from ok saved new a b show ?thesis by blast
qed

text \<open>
  Claim C1 as stated fails for an assignment that the validator rejects: the saved
  document stays unmodified and its store does not receive the value.
\<close>

theorem field_assignment_counterexample:
  "fst (Document_setitem (saved_document typed_users) ''age'' (PInt 5)) = Inl (ValidationError ''age'') \<and>
   \<not> modified (snd (Document_setitem (saved_document typed_users) ''age'' (PInt 5))) \<and>
   map_of (store (snd (Document_setitem (saved_document typed_users) ''age'' (PInt 5)))) ''age'' = None"
  by (simp add: Document_setitem_def saved_document_def new_document_def blank_def
      typed_users_def users_def)

subsection \<open>Validation on save, and patching\<close>

text \<open>
  \<^verbatim>\<open>save\<close> and \<^verbatim>\<open>patch\<close> call \<^verbatim>\<open>self.validate(patch = ..., logErrors = False)\<close>, and
  \<^verbatim>\<open>validate\<close> has no parameter \<^verbatim>\<open>logErrors\<close>: the call raises \<^verbatim>\<open>TypeError\<close> before the
  collection's validator is reached.
\<close>

lemma call_validate_logErrors:
  "call_validate self [(''patch'', p), (''logErrors'', q)]
    = Inl (TypeError ''validate() got an unexpected keyword argument logErrors'')"
  by (simp add: call_validate_def validate_parameters_def)

text \<open>
  Claim C2, as amended. On a document without a resource address \<^verbatim>\<open>patch\<close> always
  raises, whatever its arguments and whatever the server would answer, and leaves the
  document and the log of requests as they were: no request is sent. When \<^verbatim>\<open>on_save\<close> is
  off the error is the "not previously saved" one.
\<close>

theorem patch_never_saved:
  "URL self = None \<Longrightarrow>
    (\<exists>e. Document_patch srv self keepNull docArgs lg = (Inl e, self, lg)) \<and>
    (\<not> on_save (collection self) \<longrightarrow>
       Document_patch srv self keepNull docArgs lg
         = (Inl (ValueError ''Cannot patch a document that was not previously saved''), self, lg))"
  by (simp add: Document_patch_def call_validate_logErrors)

theorem patch_never_saved_witness:
  "URL (new_document users) = None \<and> \<not> on_save (collection (new_document users)) \<and>
   Document_patch accepting_server (new_document users) (PBool True) [] []
     = (Inl (ValueError ''Cannot patch a document that was not previously saved''),
        new_document users, [])"
proof -
  have u: "URL (new_document users) = None"
    by (simp add: new_document_def blank_def)
  have v: "\<not> on_save (collection (new_document users))"
    by (simp add: new_document_def blank_def users_def)
  from patch_never_saved [OF u, of accepting_server "PBool True" "[]" "[]"] u v
  show ?thesis by blast
qed

text \<open>
  Claim C2 as stated fails when the collection validates on save: validation runs before
  the address is looked at, and the error raised is not the "not previously saved" one.
\<close>

theorem patch_never_saved_counterexample:
  "URL (new_document strict_users) = None \<and>
   fst (Document_patch accepting_server (new_document strict_users) (PBool True) [] [])
     = Inl (TypeError ''validate() got an unexpected keyword argument logErrors'') \<and>
   fst (Document_patch accepting_server (new_document strict_users) (PBool True) [] [])
     \<noteq> Inl (ValueError ''Cannot patch a document that was not previously saved'')"
  by (simp add: Document_patch_def call_validate_logErrors new_document_def blank_def
      strict_users_def users_def)

text \<open>
  Claim C3 describes what \<^verbatim>\<open>save\<close> is written to do; the code does not do it. On a
  modified document of a collection that validates on save, \<^verbatim>\<open>save\<close> raises
  \<^verbatim>\<open>TypeError\<close> whatever the store holds and whatever the collection's validator would
  say: the store is never validated, a valid document cannot be saved, and an invalid
  one does not raise the collection's validation error. No request is sent.
\<close>

theorem save_validation_raises_TypeError:
  "modified self \<and> on_save (collection self) \<longrightarrow>
    Document_save srv self docArgs lg
      = (Inl (TypeError ''validate() got an unexpected keyword argument logErrors''), self, lg)"
  by (simp add: Document_save_def call_validate_logErrors)

theorem save_validation_raises_TypeError_witness:
  "modified (new_document checked_users) \<and> on_save (collection (new_document checked_users)) \<and>
   validateDct (collection (new_document checked_users)) (store (new_document checked_users))
     = Inr (PBool True) \<and>
   Document_save accepting_server (new_document checked_users) [] []
     = (Inl (TypeError ''validate() got an unexpected keyword argument logErrors''),
        new_document checked_users, [])"
proof -
  have m: "modified (new_document checked_users) \<and> on_save (collection (new_document checked_users))"
    by (simp add: new_document_def blank_def checked_users_def users_def)
  have v: "validateDct (collection (new_document checked_users)) (store (new_document checked_users))
     = Inr (PBool True)"
    by (simp add: new_document_def blank_def checked_users_def users_def)
  from save_validation_raises_TypeError [of "new_document checked_users" accepting_server "[]" "[]"] m v
  show ?thesis by blast
qed

subsection \<open>set and the modified flag\<close>

lemma setitem_modified: "modified self \<Longrightarrow> modified (snd (Document_setitem self k v))"
  by (simp add: Document_setitem_def Let_def split: option.splits)

lemma set_loop_modified: "modified self \<Longrightarrow> modified (snd (set_loop self f ks))"
proof (induction ks arbitrary: self)
  case Nil
  then show ?case by simp
next
  case (Cons k ks)
  show ?case
  proof (cases "map_of f k")
    case None
    with Cons.prems show ?thesis by simp
  next
    case (Some v)
    obtain r s1 where p: "Document_setitem self k v = (r, s1)"
      by (cases "Document_setitem self k v")
    have m: "modified s1"
      using setitem_modified [OF Cons.prems, of k v] p by simp
    show ?thesis
      using Some p m Cons.IH [OF m] by (cases r) simp_all
  qed
qed

lemma set_keeps_modified: "modified self \<Longrightarrow> modified (fst (snd (Document_set self f)))"
proof -
  assume m: "modified self"
  obtain s1 f1 where p: "setPrivates self f = (s1, f1)"
    by (cases "setPrivates self f")
  have m1: "modified s1"
    using setPrivates_frame [of self f] p m by simp
  show ?thesis
    using p m1 set_loop_modified [OF m1, of f1 "map fst f1"]
    by (auto simp: Document_set_def split: prod.splits)
qed

lemma set_without_assignment:
  assumes "\<not> on_set (collection self) \<or> snd (setPrivates self f) = []"
  shows "fst (Document_set self f) = Inr () \<and>
         modified (fst (snd (Document_set self f))) = modified self"
proof -
  obtain s1 f1 where p: "setPrivates self f = (s1, f1)"
    by (cases "setPrivates self f")
  have fr: "collection s1 = collection self \<and> modified s1 = modified self"
    using setPrivates_frame [of self f] p by simp
  show ?thesis
  proof (cases "on_set (collection self)")
    case True
    with assms p have "f1 = []" by simp
    with p fr True show ?thesis by (simp add: Document_set_def)
  next
    case False
    with p fr show ?thesis by (simp add: Document_set_def)
  qed
qed

subsection \<open>Deleting\<close>

text \<open>\<^verbatim>\<open>self.reset(self.collection)\<close>: the reset to an empty document, which never raises.\<close>

lemma setPrivates_empty:
  "doc_id (fst (setPrivates self [])) = PNone \<and> doc_rev (fst (setPrivates self [])) = PNone \<and>
   doc_key (fst (setPrivates self [])) = PNone \<and> URL (fst (setPrivates self [])) = None \<and>
   snd (setPrivates self []) = []"
  by (simp add: setPrivates_def Edge_setPrivates_def Document_setPrivates_def unset_privates_def
      split: py_class.splits)

lemma Document_set_empty:
  "Document_set self [] = (Inr (), fst (setPrivates self []), [])"
proof -
  obtain s1 f1 where p: "setPrivates self [] = (s1, f1)"
    by (cases "setPrivates self []")
  with setPrivates_empty [of self] have "f1 = []" by simp
  with p show ?thesis by (simp add: Document_set_def dict_update_def)
qed

lemma Document_reset_empty:
  "Document_reset self c [] =
    (Inr (),
     (fst (setPrivates (self\<lparr>collection := c, documentsURL := coll_documentsURL c,
                               store := [], patchStore := []\<rparr>) []))\<lparr>modified := True\<rparr>,
     [])"
  by (simp add: Document_reset_def Document_set_empty)

lemma Document_reset_empty_state:
  "fst (Document_reset self c []) = Inr () \<and>
   store (fst (snd (Document_reset self c []))) = [] \<and>
   patchStore (fst (snd (Document_reset self c []))) = [] \<and>
   modified (fst (snd (Document_reset self c []))) \<and>
   doc_id (fst (snd (Document_reset self c []))) = PNone \<and>
   doc_rev (fst (snd (Document_reset self c []))) = PNone \<and>
   doc_key (fst (snd (Document_reset self c []))) = PNone \<and>
   URL (fst (snd (Document_reset self c []))) = None \<and>
   collection (fst (snd (Document_reset self c []))) = c \<and>
   documentsURL (fst (snd (Document_reset self c []))) = coll_documentsURL c \<and>
   py_class (fst (snd (Document_reset self c []))) = py_class self"
  using setPrivates_empty [of "self\<lparr>collection := c, documentsURL := coll_documentsURL c,
                               store := [], patchStore := []\<rparr>"]
        setPrivates_frame [of "self\<lparr>collection := c, documentsURL := coll_documentsURL c,
                               store := [], patchStore := []\<rparr>" "[]"]
  by (simp add: Document_reset_empty)

lemma delete_never_saved:
  "URL self = None \<Longrightarrow>
    Document_delete srv self lg
      = (Inl (DeletionError (PStr ''Can't delete a document that was not saved'') None), self, lg)"
  by (simp add: Document_delete_def)

lemma delete_sends:
  "URL self = Some u \<Longrightarrow> snd (snd (Document_delete srv self lg)) = lg @ [delete_request u]"
proof -
  assume u: "URL self = Some u"
  obtain s1 where rs: "Document_reset self (collection self) [] = (Inr (), s1, [])"
    using Document_reset_empty by blast
  show ?thesis
    using u rs
    by (auto simp: Document_delete_def requests_send_def delete_request_def
        split: option.splits sum.splits bool.splits)
qed

lemma delete_raise_unchanged:
  "fst (Document_delete srv self lg) = Inl e \<Longrightarrow> fst (snd (Document_delete srv self lg)) = self"
proof -
  assume f: "fst (Document_delete srv self lg) = Inl e"
  obtain s1 where rs: "Document_reset self (collection self) [] = (Inr (), s1, [])"
    using Document_reset_empty by blast
  show ?thesis
    using f rs
    by (auto simp: Document_delete_def requests_send_def
        split: option.splits sum.splits bool.splits)
qed

lemma delete_success:
  assumes u: "URL self = Some u"
      and j: "json (srv lg (delete_request u)) = Some data"
      and st: "status_code (srv lg (delete_request u)) = 200 \<or> status_code (srv lg (delete_request u)) = 202"
      and e: "map_of data ''error'' = Some e" "\<not> truthy e"
  shows "Document_delete srv self lg
      = (Inr (), (fst (snd (Document_reset self (collection self) [])))\<lparr>modified := True\<rparr>,
         lg @ [delete_request u])"
proof -
  have r: "refused (srv lg (delete_request u)) data = Inr False"
    using e st by (auto simp: refused_def)
  obtain s1 where rs: "Document_reset self (collection self) [] = (Inr (), s1, [])"
    using Document_reset_empty by blast
  show ?thesis
    using u j r rs
    by (simp add: Document_delete_def requests_send_def delete_request_def)
qed

lemma delete_refusal:
  assumes u: "URL self = Some u"
      and j: "json (srv lg (delete_request u)) = Some data"
      and m: "map_of data ''errorMessage'' = Some m"
      and st: "(status_code (srv lg (delete_request u)) \<noteq> 200 \<and>
                status_code (srv lg (delete_request u)) \<noteq> 202) \<or>
               (\<exists>e. map_of data ''error'' = Some e \<and> truthy e)"
  shows "Document_delete srv self lg
      = (Inl (DeletionError m (Some data)), self, lg @ [delete_request u])"
proof -
  have r: "refused (srv lg (delete_request u)) data = Inr True"
    using st by (auto simp: refused_def)
  show ?thesis
    using u j r m
    by (simp add: Document_delete_def requests_send_def delete_request_def server_error_def)
qed

lemma delete_returns_only_confirmed:
  assumes ok: "fst (Document_delete srv self lg) = Inr ()"
  shows "\<exists>u data e. URL self = Some u \<and> json (srv lg (delete_request u)) = Some data \<and>
      (status_code (srv lg (delete_request u)) = 200 \<or> status_code (srv lg (delete_request u)) = 202) \<and>
      map_of data ''error'' = Some e \<and> \<not> truthy e"
  using ok
  by (auto simp: Document_delete_def requests_send_def delete_request_def refused_def
      split: option.splits sum.splits bool.splits if_splits)

text \<open>
  Claim C6, as amended. On a document without a resource address \<^verbatim>\<open>delete\<close> raises
  \<^verbatim>\<open>DeletionError\<close> and sends no request: document and log are as they were. On a
  document with an address it sends one DELETE request to that address, whatever the
  answer. When the answer has status 200 or 202 and decodes to a dictionary whose error
  flag is present and falsy, \<^verbatim>\<open>delete\<close> returns and the document has no id, revision,
  key or address, is modified, and its store and patch store are empty; \<^verbatim>\<open>delete\<close>
  returns in no other case. When the answer decodes to a dictionary that carries the
  server's error message, and the status is another one or the error flag is truthy,
  \<^verbatim>\<open>delete\<close> raises \<^verbatim>\<open>DeletionError\<close> with that message and the answer. Whenever
  \<^verbatim>\<open>delete\<close> raises, the document is as it was before the call.
\<close>

theorem delete_outcomes:
  "(URL self = None \<longrightarrow>
      Document_delete srv self lg
        = (Inl (DeletionError (PStr ''Can't delete a document that was not saved'') None), self, lg)) \<and>
   (\<forall>u. URL self = Some u \<longrightarrow>
      snd (snd (Document_delete srv self lg)) = lg @ [delete_request u]) \<and>
   (\<forall>u data e.
      URL self = Some u \<and> json (srv lg (delete_request u)) = Some data \<and>
      (status_code (srv lg (delete_request u)) = 200 \<or> status_code (srv lg (delete_request u)) = 202) \<and>
      map_of data ''error'' = Some e \<and> \<not> truthy e \<longrightarrow>
        fst (Document_delete srv self lg) = Inr () \<and>
        doc_id (fst (snd (Document_delete srv self lg))) = PNone \<and>
        doc_rev (fst (snd (Document_delete srv self lg))) = PNone \<and>
        doc_key (fst (snd (Document_delete srv self lg))) = PNone \<and>
        URL (fst (snd (Document_delete srv self lg))) = None \<and>
        modified (fst (snd (Document_delete srv self lg))) \<and>
        store (fst (snd (Document_delete srv self lg))) = [] \<and>
        patchStore (fst (snd (Document_delete srv self lg))) = []) \<and>
   (fst (Document_delete srv self lg) = Inr () \<longrightarrow>
      (\<exists>u data e. URL self = Some u \<and> json (srv lg (delete_request u)) = Some data \<and>
         (status_code (srv lg (delete_request u)) = 200 \<or>
          status_code (srv lg (delete_request u)) = 202) \<and>
         map_of data ''error'' = Some e \<and> \<not> truthy e)) \<and>
   (\<forall>u data m.
      URL self = Some u \<and> json (srv lg (delete_request u)) = Some data \<and>
      map_of data ''errorMessage'' = Some m \<and>
      ((status_code (srv lg (delete_request u)) \<noteq> 200 \<and>
        status_code (srv lg (delete_request u)) \<noteq> 202) \<or>
       (\<exists>e. map_of data ''error'' = Some e \<and> truthy e)) \<longrightarrow>
        Document_delete srv self lg
          = (Inl (DeletionError m (Some data)), self, lg @ [delete_request u])) \<and>
   (\<forall>e. fst (Document_delete srv self lg) = Inl e \<longrightarrow>
      fst (snd (Document_delete srv self lg)) = self)"
proof -
  have a: "URL self = None \<longrightarrow>
      Document_delete srv self lg
        = (Inl (DeletionError (PStr ''Can't delete a document that was not saved'') None), self, lg)"
    using delete_never_saved by blast
  have b: "\<forall>u. URL self = Some u \<longrightarrow>
      snd (snd (Document_delete srv self lg)) = lg @ [delete_request u]"
    using delete_sends by blast
  have c: "\<forall>u data e.
      URL self = Some u \<and> json (srv lg (delete_request u)) = Some data \<and>
      (status_code (srv lg (delete_request u)) = 200 \<or> status_code (srv lg (delete_request u)) = 202) \<and>
      map_of data ''error'' = Some e \<and> \<not> truthy e \<longrightarrow>
        fst (Document_delete srv self lg) = Inr () \<and>
        doc_id (fst (snd (Document_delete srv self lg))) = PNone \<and>
        doc_rev (fst (snd (Document_delete srv self lg))) = PNone \<and>
        doc_key (fst (snd (Document_delete srv self lg))) = PNone \<and>
        URL (fst (snd (Document_delete srv self lg))) = None \<and>
        modified (fst (snd (Document_delete srv self lg))) \<and>
        store (fst (snd (Document_delete srv self lg))) = [] \<and>
        patchStore (fst (snd (Document_delete srv self lg))) = []"
  proof (intro allI impI)
    fix u data e
    assume h: "URL self = Some u \<and> json (srv lg (delete_request u)) = Some data \<and>
      (status_code (srv lg (delete_request u)) = 200 \<or> status_code (srv lg (delete_request u)) = 202) \<and>
      map_of data ''error'' = Some e \<and> \<not> truthy e"
    then have "Document_delete srv self lg
      = (Inr (), (fst (snd (Document_reset self (collection self) [])))\<lparr>modified := True\<rparr>,
         lg @ [delete_request u])"
      using delete_success [of self u srv lg data e] by blast
    then show "fst (Document_delete srv self lg) = Inr () \<and>
        doc_id (fst (snd (Document_delete srv self lg))) = PNone \<and>
        doc_rev (fst (snd (Document_delete srv self lg))) = PNone \<and>
        doc_key (fst (snd (Document_delete srv self lg))) = PNone \<and>
        URL (fst (snd (Document_delete srv self lg))) = None \<and>
        modified (fst (snd (Document_delete srv self lg))) \<and>
        store (fst (snd (Document_delete srv self lg))) = [] \<and>
        patchStore (fst (snd (Document_delete srv self lg))) = []"
      using Document_reset_empty_state [of self "collection self"] by simp
  qed
  have d: "fst (Document_delete srv self lg) = Inr () \<longrightarrow>
      (\<exists>u data e. URL self = Some u \<and> json (srv lg (delete_request u)) = Some data \<and>
         (status_code (srv lg (delete_request u)) = 200 \<or>
          status_code (srv lg (delete_request u)) = 202) \<and>
         map_of data ''error'' = Some e \<and> \<not> truthy e)"
    using delete_returns_only_confirmed by blast
  have e: "\<forall>u data m.
      URL self = Some u \<and> json (srv lg (delete_request u)) = Some data \<and>
      map_of data ''errorMessage'' = Some m \<and>
      ((status_code (srv lg (delete_request u)) \<noteq> 200 \<and>
        status_code (srv lg (delete_request u)) \<noteq> 202) \<or>
       (\<exists>e. map_of data ''error'' = Some e \<and> truthy e)) \<longrightarrow>
        Document_delete srv self lg
          = (Inl (DeletionError m (Some data)), self, lg @ [delete_request u])"
    using delete_refusal by blast
  have f: "\<forall>e. fst (Document_delete srv self lg) = Inl e \<longrightarrow>
      fst (snd (Document_delete srv self lg)) = self"
    using delete_raise_unchanged by blast
  from a b c d e f show ?thesis by blast
qed

theorem delete_outcomes_witness:
  "URL (new_document users) = None \<and>
   Document_delete accepting_server (new_document users) []
     = (Inl (DeletionError (PStr ''Can't delete a document that was not saved'') None),
        new_document users, []) \<and>
   URL (saved_document users) = Some ''http://localhost:8529/_api/document/users/1'' \<and>
   status_code (accepting_server [] (delete_request ''http://localhost:8529/_api/document/users/1''))
     = 200 \<and>
   fst (Document_delete accepting_server (saved_document users) []) = Inr () \<and>
   snd (snd (Document_delete accepting_server (saved_document users) []))
     = [delete_request ''http://localhost:8529/_api/document/users/1''] \<and>
   doc_id (fst (snd (Document_delete accepting_server (saved_document users) []))) = PNone \<and>
   doc_rev (fst (snd (Document_delete accepting_server (saved_document users) []))) = PNone \<and>
   doc_key (fst (snd (Document_delete accepting_server (saved_document users) []))) = PNone \<and>
   modified (fst (snd (Document_delete accepting_server (saved_document users) []))) \<and>
   status_code (refusing_server [] (delete_request ''http://localhost:8529/_api/document/users/1''))
     = 404 \<and>
   Document_delete refusing_server (saved_document users) []
     = (Inl (DeletionError (PStr ''document not found'')
          (Some [(''error'', PBool True), (''errorMessage'', PStr ''document not found''),
                 (''code'', PInt 404)])),
        saved_document users,
        [delete_request ''http://localhost:8529/_api/document/users/1''])"
proof -
  let ?u = "''http://localhost:8529/_api/document/users/1''"
  let ?ok = "[(''error'', PBool False), (''_id'', PStr ''users/2''), (''_rev'', PStr ''8''),
              (''_key'', PStr ''2'')]"
  let ?no = "[(''error'', PBool True), (''errorMessage'', PStr ''document not found''),
              (''code'', PInt 404)]"
  have n: "URL (new_document users) = None"
    by (simp add: new_document_def blank_def)
  have u: "URL (saved_document users) = Some ?u"
    by (simp add: saved_document_def users_def)
  have s1: "status_code (accepting_server [] (delete_request ?u)) = 200"
    by (simp add: accepting_server_def delete_request_def)
  have j1: "json (accepting_server [] (delete_request ?u)) = Some ?ok"
    by (simp add: accepting_server_def)
  have e1: "map_of ?ok ''error'' = Some (PBool False) \<and> \<not> truthy (PBool False)"
    by simp
  have s2: "status_code (refusing_server [] (delete_request ?u)) = 404"
    by (simp add: refusing_server_def)
  have s2': "status_code (refusing_server [] (delete_request ?u)) \<noteq> 200 \<and>
      status_code (refusing_server [] (delete_request ?u)) \<noteq> 202"
    by (simp add: refusing_server_def)
  have j2: "json (refusing_server [] (delete_request ?u)) = Some ?no"
    by (simp add: refusing_server_def)
  have m2: "map_of ?no ''errorMessage'' = Some (PStr ''document not found'')"
    by simp
  have a: "Document_delete accepting_server (new_document users) []
     = (Inl (DeletionError (PStr ''Can't delete a document that was not saved'') None),
        new_document users, [])"
    using delete_outcomes [of "new_document users" accepting_server "[]"] n by blast
  have l: "snd (snd (Document_delete accepting_server (saved_document users) []))
      = [] @ [delete_request ?u]"
    using delete_outcomes [of "saved_document users" accepting_server "[]"] u by blast
  have b: "fst (Document_delete accepting_server (saved_document users) []) = Inr () \<and>
   doc_id (fst (snd (Document_delete accepting_server (saved_document users) []))) = PNone \<and>
   doc_rev (fst (snd (Document_delete accepting_server (saved_document users) []))) = PNone \<and>
   doc_key (fst (snd (Document_delete accepting_server (saved_document users) []))) = PNone \<and>
   modified (fst (snd (Document_delete accepting_server (saved_document users) [])))"
    using delete_outcomes [of "saved_document users" accepting_server "[]"] u s1 j1 e1 by blast
  have c: "Document_delete refusing_server (saved_document users) []
     = (Inl (DeletionError (PStr ''document not found'') (Some ?no)), saved_document users,
        [] @ [delete_request ?u])"
    using delete_outcomes [of "saved_document users" refusing_server "[]"] u s2' j2 m2 by blast
  from n u s1 s2 a b l c show ?thesis by simp
qed

text \<open>
  Claim C6 as stated fails when the answer to the DELETE request does not have the
  form the method expects. An answer with status 500 and an error flag but no message
  is an unsuccessful deletion, and \<^verbatim>\<open>delete\<close> raises \<^verbatim>\<open>KeyError\<close>, not \<^verbatim>\<open>DeletionError\<close>.
  An answer with status 200 and no error flag makes it raise \<^verbatim>\<open>KeyError\<close> too, and the
  document keeps its identity.
\<close>

theorem delete_outcomes_counterexample:
  "URL (saved_document users) = Some ''http://localhost:8529/_api/document/users/1'' \<and>
   status_code (terse_server [] (delete_request ''http://localhost:8529/_api/document/users/1''))
     = 500 \<and>
   fst (Document_delete terse_server (saved_document users) []) = Inl (KeyError ''errorMessage'') \<and>
   status_code (flagless_server [] (delete_request ''http://localhost:8529/_api/document/users/1''))
     = 200 \<and>
   fst (Document_delete flagless_server (saved_document users) []) = Inl (KeyError ''error'') \<and>
   doc_id (fst (snd (Document_delete flagless_server (saved_document users) []))) = PStr ''users/1''"
  by (simp add: Document_delete_def requests_send_def refused_def server_error_def
      terse_server_def flagless_server_def saved_document_def new_document_def blank_def users_def)

subsection \<open>Edges\<close>

text \<open>The example edge is the object the constructor builds from the stored fields.\<close>

lemma Edge_init_stored: "fst (Edge_init users stored_edge_fields) = Inr (saved_edge users)"
  by (simp add: Edge_init_def Edge_reset_def Document_reset_def Document_set_def setPrivates_def
      Edge_setPrivates_def Document_setPrivates_def blank_def users_def stored_edge_fields_def
      saved_edge_def dict_update_def Let_def)

text \<open>
  Claim C10. On an edge that has a resource address, \<^verbatim>\<open>links\<close> raises
  \<^verbatim>\<open>AttributeError\<close> at once: the store of objects and the log of requests are as they
  were, so neither vertex has been saved or changed and nothing was sent.
\<close>

theorem links_on_saved_edge:
  "URL (h self) \<noteq> None \<Longrightarrow>
    Edge_links srv h self fromVertice toVertice edgeArgs lg
      = (Inl (AttributeError
           ''It appears that the edge has already been saved. You can now use save() and patch()''),
         h, lg)"
  by (simp add: Edge_links_def)

theorem links_on_saved_edge_witness:
  "URL (example_heap 0) \<noteq> None \<and> modified (example_heap 1) \<and> modified (example_heap 2) \<and>
   Edge_links accepting_server example_heap 0 (Ref 1) (Ref 2) [] []
      = (Inl (AttributeError
           ''It appears that the edge has already been saved. You can now use save() and patch()''),
         example_heap, [])"
proof -
  have u: "URL (example_heap 0) \<noteq> None"
    by (simp add: example_heap_def saved_edge_def)
  have m: "modified (example_heap 1) \<and> modified (example_heap 2)"
    by (simp add: example_heap_def new_document_def)
  from links_on_saved_edge [of example_heap 0 accepting_server "Ref 1" "Ref 2" "[]" "[]"] u m
  show ?thesis by blast
qed

text \<open>
  Claim C4. The first half holds: on an edge without a resource address, \<^verbatim>\<open>save\<close>
  without both vertices raises the "must specify from/to" error. The second half does
  not: on an edge with an address, \<^verbatim>\<open>save\<close> without vertices passes the first test and
  then fails on \<^verbatim>\<open>None\<close> in the chain that reads the id of a vertex. It raises, sends
  nothing and never reads the endpoint ids the edge holds.
\<close>

theorem edge_save_endpoints:
  "(URL self = None \<and> (is_None fromVertice \<or> is_None toVertice) \<longrightarrow>
      Edge_save srv self fromVertice toVertice edgeArgs lg
        = (Inl (ValueError
             ''The first time you save an Edge you must specify the from and to vertices''),
           self, lg)) \<and>
   (URL self \<noteq> None \<longrightarrow>
      Edge_save srv self (Val PNone) (Val PNone) edgeArgs lg
        = (Inl (NameError ''global name types is not defined''), self, lg))"
  by (simp add: Edge_save_def endpoint_id_def)

theorem edge_save_endpoints_witness:
  "URL ((new_document users)\<lparr>py_class := EdgeClass\<rparr>) = None \<and>
   Edge_save accepting_server ((new_document users)\<lparr>py_class := EdgeClass\<rparr>)
       (Obj (saved_document users)) (Val PNone) [] []
     = (Inl (ValueError
          ''The first time you save an Edge you must specify the from and to vertices''),
        (new_document users)\<lparr>py_class := EdgeClass\<rparr>, []) \<and>
   fst (Edge_init users stored_edge_fields) = Inr (saved_edge users) \<and>
   URL (saved_edge users) \<noteq> None \<and> modified (saved_edge users) \<and>
   edge_from (saved_edge users) = PStr ''users/1'' \<and> edge_to (saved_edge users) = PStr ''users/2'' \<and>
   Edge_save accepting_server (saved_edge users) (Val PNone) (Val PNone) [] []
     = (Inl (NameError ''global name types is not defined''), saved_edge users, [])"
proof -
  have n: "URL ((new_document users)\<lparr>py_class := EdgeClass\<rparr>) = None"
    by (simp add: new_document_def blank_def)
  have i: "is_None (Obj (saved_document users)) \<or> is_None (Val PNone)"
    by simp
  have s: "URL (saved_edge users) \<noteq> None \<and> modified (saved_edge users) \<and>
      edge_from (saved_edge users) = PStr ''users/1'' \<and> edge_to (saved_edge users) = PStr ''users/2''"
    by (simp add: saved_edge_def)
  have c: "fst (Edge_init users stored_edge_fields) = Inr (saved_edge users)"
    by (rule Edge_init_stored)
  have a: "Edge_save accepting_server ((new_document users)\<lparr>py_class := EdgeClass\<rparr>)
       (Obj (saved_document users)) (Val PNone) [] []
     = (Inl (ValueError
          ''The first time you save an Edge you must specify the from and to vertices''),
        (new_document users)\<lparr>py_class := EdgeClass\<rparr>, [])"
    using edge_save_endpoints [of "(new_document users)\<lparr>py_class := EdgeClass\<rparr>"
        "Obj (saved_document users)" "Val PNone" accepting_server "[]" "[]"] n i
    by blast
  have b: "Edge_save accepting_server (saved_edge users) (Val PNone) (Val PNone) [] []
     = (Inl (NameError ''global name types is not defined''), saved_edge users, [])"
    using edge_save_endpoints [of "saved_edge users" "Val PNone" "Val PNone" accepting_server "[]" "[]"] s
    by blast
  from n s c a b show ?thesis by blast
qed

subsection \<open>Reserved keys in the dictionary given to set\<close>

text \<open>The caller's dictionary after \<^verbatim>\<open>setPrivates\<close>, for an object of either class.\<close>

lemma Document_setPrivates_dict:
  "snd (Document_setPrivates self fd) =
    (if map_of fd ''_id'' = None then fd
     else if map_of fd ''_rev'' = None then AList.delete ''_id'' fd
     else if map_of fd ''_key'' = None then AList.delete ''_rev'' (AList.delete ''_id'' fd)
     else AList.delete ''_key'' (AList.delete ''_rev'' (AList.delete ''_id'' fd)))"
  by (auto simp: Document_setPrivates_def Let_def delete_conv' split: option.splits)

lemma setPrivates_dict:
  "snd (setPrivates self fd) =
    (if map_of fd ''_id'' = None then fd
     else if map_of fd ''_rev'' = None then AList.delete ''_id'' fd
     else if map_of fd ''_key'' = None then AList.delete ''_rev'' (AList.delete ''_id'' fd)
     else AList.delete ''_key'' (AList.delete ''_rev'' (AList.delete ''_id'' fd)))"
  by (simp add: setPrivates_def Edge_setPrivates_def Document_setPrivates_dict Let_def
      split: py_class.splits)

lemma Document_set_dict: "snd (snd (Document_set self fd)) = snd (setPrivates self fd)"
  by (cases "setPrivates self fd") (auto simp: Document_set_def split: prod.splits)

text \<open>The store keeps its entry for every key that the dictionary does not hold.\<close>

lemma setitem_store_other:
  "k' \<noteq> k \<Longrightarrow> map_of (store (snd (Document_setitem self k v))) k' = map_of (store self) k'"
  by (simp add: setitem_cases update_conv' split: option.splits)

lemma set_loop_store_other:
  "k' \<notin> set ks \<Longrightarrow> map_of (store (snd (set_loop self f ks))) k' = map_of (store self) k'"
proof (induction ks arbitrary: self)
  case Nil
  then show ?case by simp
next
  case (Cons k ks)
  from Cons.prems have ne: "k' \<noteq> k" and ni: "k' \<notin> set ks" by auto
  show ?case
  proof (cases "map_of f k")
    case None
    then show ?thesis by simp
  next
    case (Some v)
    obtain r s1 where p: "Document_setitem self k v = (r, s1)"
      by (cases "Document_setitem self k v")
    have s1: "map_of (store s1) k' = map_of (store self) k'"
      using setitem_store_other [OF ne, of self v] p by simp
    show ?thesis
      using Some p s1 Cons.IH [OF ni, of s1] by (cases r) simp_all
  qed
qed

lemma dict_update_other:
  "k' \<notin> fst ` set e \<Longrightarrow> map_of (dict_update d e) k' = map_of d k'"
  unfolding dict_update_def
  by (induction e arbitrary: d) (auto simp: update_conv')

lemma dict_update_map_of:
  "distinct (map fst e) \<Longrightarrow> map_of (dict_update d e) = map_of d ++ map_of e"
  unfolding dict_update_def
proof (induction e arbitrary: d)
  case Nil
  then show ?case by simp
next
  case (Cons p e)
  obtain k v where p: "p = (k, v)" by (cases p)
  from Cons.prems p have ni: "k \<notin> fst ` set e" and d: "distinct (map fst e)" by auto
  from ni have n: "map_of e k = None" by (simp add: map_of_eq_None_iff)
  have "map_of (fold (\<lambda>(k, v). AList.update k v) (p # e) d)
      = map_of (AList.update k v d) ++ map_of e"
    using Cons.IH [OF d, of "AList.update k v d"] p by simp
  also have "\<dots> = map_of d ++ map_of (p # e)"
    using n p by (auto simp: update_conv' map_add_def fun_eq_iff split: option.splits)
  finally show ?case .
qed

lemma set_store_other:
  "k' \<notin> fst ` set (snd (setPrivates self fd)) \<Longrightarrow>
    map_of (store (fst (snd (Document_set self fd)))) k' = map_of (store self) k'"
proof -
  assume ni: "k' \<notin> fst ` set (snd (setPrivates self fd))"
  obtain s1 f1 where p: "setPrivates self fd = (s1, f1)"
    by (cases "setPrivates self fd")
  have st: "store s1 = store self"
    using setPrivates_frame [of self fd] p by simp
  from ni p have a: "k' \<notin> set (map fst f1)" and b: "k' \<notin> fst ` set f1" by auto
  show ?thesis
    using p st set_loop_store_other [OF a, of s1 f1] dict_update_other [OF b, of "store s1"]
    by (auto simp: Document_set_def split: prod.splits)
qed

text \<open>When \<^verbatim>\<open>set\<close> returns, the store holds every entry of the dictionary.\<close>

lemma setitem_store_same:
  "fst (Document_setitem self k v) = Inr () \<Longrightarrow> map_of (store (snd (Document_setitem self k v))) k = Some v"
  by (auto simp: setitem_cases update_conv' split: option.splits if_splits)

lemma set_loop_written:
  "fst (set_loop self f ks) = Inr () \<Longrightarrow>
   \<forall>k\<in>A. map_of (store self) k = map_of f k \<Longrightarrow>
   \<forall>k\<in>A \<union> set ks. map_of (store (snd (set_loop self f ks))) k = map_of f k"
proof (induction ks arbitrary: self A)
  case Nil
  then show ?case by simp
next
  case (Cons k ks)
  show ?case
  proof (cases "map_of f k")
    case None
    with Cons.prems(1) show ?thesis by simp
  next
    case (Some v)
    obtain r s1 where p: "Document_setitem self k v = (r, s1)"
      by (cases "Document_setitem self k v")
    show ?thesis
    proof (cases r)
      case (Inl e)
      with Cons.prems(1) Some p show ?thesis by simp
    next
      case (Inr x)
      with Some p Cons.prems(1) have ok: "fst (set_loop s1 f ks) = Inr ()" by simp
      have same: "map_of (store s1) k = map_of f k"
        using setitem_store_same [of self k v] p Inr Some by simp
      have other: "\<forall>k'\<in>A. map_of (store s1) k' = map_of f k'"
      proof
        fix k' assume k': "k' \<in> A"
        show "map_of (store s1) k' = map_of f k'"
        proof (cases "k' = k")
          case True
          with same show ?thesis by simp
        next
          case False
          with setitem_store_other [OF False, of self v] p Cons.prems(2) k' show ?thesis by simp
        qed
      qed
      from same other have "\<forall>k'\<in>insert k A. map_of (store s1) k' = map_of f k'" by simp
      from Cons.IH [OF ok this] Some p Inr show ?thesis by simp
    qed
  qed
qed

lemma set_written:
  assumes d: "distinct (map fst fd)" and ok: "fst (Document_set self fd) = Inr ()"
      and k: "map_of (snd (snd (Document_set self fd))) k \<noteq> None"
  shows "map_of (store (fst (snd (Document_set self fd)))) k = map_of (snd (snd (Document_set self fd))) k"
proof -
  obtain s1 f1 where p: "setPrivates self fd = (s1, f1)"
    by (cases "setPrivates self fd")
  have f1: "snd (snd (Document_set self fd)) = f1"
    using p by (simp add: Document_set_dict)
  have df: "distinct (map fst f1)"
    using d setPrivates_dict [of self fd] p by (auto simp: delete_keys distinct_removeAll)
  from k f1 have kin: "k \<in> set (map fst f1)"
    by (simp add: map_of_eq_None_iff)
  show ?thesis
  proof (cases "on_set (collection s1)")
    case True
    with ok p have l: "fst (set_loop s1 f1 (map fst f1)) = Inr ()"
      by (auto simp: Document_set_def split: prod.splits)
    have "\<forall>k\<in>{} \<union> set (map fst f1). map_of (store (snd (set_loop s1 f1 (map fst f1)))) k = map_of f1 k"
      by (rule set_loop_written [OF l]) simp
    with kin have "map_of (store (snd (set_loop s1 f1 (map fst f1)))) k = map_of f1 k" by blast
    with True p f1 show ?thesis
      by (auto simp: Document_set_def split: prod.splits)
  next
    case False
    with p f1 k show ?thesis
      by (auto simp: Document_set_def dict_update_map_of [OF df] map_add_def split: option.splits)
  qed
qed

text \<open>
  Claim C9, as amended. \<^verbatim>\<open>set\<close> deletes from the caller's dictionary the reserved keys
  that \<^verbatim>\<open>setPrivates\<close> has read before the first missing one: all three when all are
  present, none when \<^verbatim>\<open>_id\<close> is missing, \<^verbatim>\<open>_id\<close> when \<^verbatim>\<open>_rev\<close> is missing, \<^verbatim>\<open>_id\<close>
  and \<^verbatim>\<open>_rev\<close> when \<^verbatim>\<open>_key\<close> is missing; this holds also when \<^verbatim>\<open>set\<close> raises. When all
  three are present the store keeps, under each reserved key, what it held before. When
  \<^verbatim>\<open>set\<close> returns, every key left in the dictionary, a reserved one included, is in the
  store with the dictionary's value; \<^verbatim>\<open>set\<close> always returns when \<^verbatim>\<open>on_set\<close> is off. (The
  dictionary has each key once, as a Python dictionary does.)
\<close>

theorem set_reserved_keys:
  "(map_of fd ''_id'' \<noteq> None \<and> map_of fd ''_rev'' \<noteq> None \<and> map_of fd ''_key'' \<noteq> None \<longrightarrow>
      snd (snd (Document_set self fd))
        = AList.delete ''_key'' (AList.delete ''_rev'' (AList.delete ''_id'' fd)) \<and>
      (\<forall>k\<in>set reserved_keys.
         map_of (snd (snd (Document_set self fd))) k = None \<and>
         map_of (store (fst (snd (Document_set self fd)))) k = map_of (store self) k)) \<and>
   (map_of fd ''_id'' = None \<longrightarrow> snd (snd (Document_set self fd)) = fd) \<and>
   (map_of fd ''_id'' \<noteq> None \<and> map_of fd ''_rev'' = None \<longrightarrow>
      snd (snd (Document_set self fd)) = AList.delete ''_id'' fd) \<and>
   (map_of fd ''_id'' \<noteq> None \<and> map_of fd ''_rev'' \<noteq> None \<and> map_of fd ''_key'' = None \<longrightarrow>
      snd (snd (Document_set self fd)) = AList.delete ''_rev'' (AList.delete ''_id'' fd)) \<and>
   (distinct (map fst fd) \<and> fst (Document_set self fd) = Inr () \<longrightarrow>
      (\<forall>k. map_of (snd (snd (Document_set self fd))) k \<noteq> None \<longrightarrow>
         map_of (store (fst (snd (Document_set self fd)))) k
           = map_of (snd (snd (Document_set self fd))) k)) \<and>
   (\<not> on_set (collection self) \<longrightarrow> fst (Document_set self fd) = Inr ())"
proof -
  have dict: "snd (snd (Document_set self fd)) =
    (if map_of fd ''_id'' = None then fd
     else if map_of fd ''_rev'' = None then AList.delete ''_id'' fd
     else if map_of fd ''_key'' = None then AList.delete ''_rev'' (AList.delete ''_id'' fd)
     else AList.delete ''_key'' (AList.delete ''_rev'' (AList.delete ''_id'' fd)))"
    by (simp only: Document_set_dict setPrivates_dict)
  have a: "snd (snd (Document_set self fd))
        = AList.delete ''_key'' (AList.delete ''_rev'' (AList.delete ''_id'' fd)) \<and>
      (\<forall>k\<in>set reserved_keys.
         map_of (snd (snd (Document_set self fd))) k = None \<and>
         map_of (store (fst (snd (Document_set self fd)))) k = map_of (store self) k)"
    if h: "map_of fd ''_id'' \<noteq> None \<and> map_of fd ''_rev'' \<noteq> None \<and> map_of fd ''_key'' \<noteq> None"
  proof -
    from h dict have e: "snd (snd (Document_set self fd))
        = AList.delete ''_key'' (AList.delete ''_rev'' (AList.delete ''_id'' fd))" by auto
    have gone: "\<forall>k\<in>set reserved_keys. map_of (snd (snd (Document_set self fd))) k = None"
      by (simp add: e reserved_keys_def delete_conv')
    have kept: "\<forall>k\<in>set reserved_keys.
        map_of (store (fst (snd (Document_set self fd)))) k = map_of (store self) k"
    proof
      fix k assume "k \<in> set reserved_keys"
      with gone have "map_of (snd (snd (Document_set self fd))) k = None" by blast
      then have "k \<notin> fst ` set (snd (setPrivates self fd))"
        by (simp add: Document_set_dict map_of_eq_None_iff)
      then show "map_of (store (fst (snd (Document_set self fd)))) k = map_of (store self) k"
        by (rule set_store_other)
    qed
    from e gone kept show ?thesis by blast
  qed
  have b: "map_of fd ''_id'' = None \<longrightarrow> snd (snd (Document_set self fd)) = fd"
    using dict by simp
  have c: "map_of fd ''_id'' \<noteq> None \<and> map_of fd ''_rev'' = None \<longrightarrow>
      snd (snd (Document_set self fd)) = AList.delete ''_id'' fd"
    using dict by auto
  have d: "map_of fd ''_id'' \<noteq> None \<and> map_of fd ''_rev'' \<noteq> None \<and> map_of fd ''_key'' = None \<longrightarrow>
      snd (snd (Document_set self fd)) = AList.delete ''_rev'' (AList.delete ''_id'' fd)"
    using dict by auto
  have e: "distinct (map fst fd) \<and> fst (Document_set self fd) = Inr () \<longrightarrow>
      (\<forall>k. map_of (snd (snd (Document_set self fd))) k \<noteq> None \<longrightarrow>
         map_of (store (fst (snd (Document_set self fd)))) k
           = map_of (snd (snd (Document_set self fd))) k)"
    using set_written by blast
  have f: "\<not> on_set (collection self) \<longrightarrow> fst (Document_set self fd) = Inr ()"
    using set_without_assignment [of self fd] by blast
  from a b c d e f show ?thesis by blast
qed

theorem set_reserved_keys_witness:
  "map_of stored_fields ''_id'' \<noteq> None \<and> map_of stored_fields ''_rev'' \<noteq> None \<and>
   map_of stored_fields ''_key'' \<noteq> None \<and>
   snd (snd (Document_set (new_document users) stored_fields)) = [(''name'', PStr ''a'')] \<and>
   map_of (store (fst (snd (Document_set (new_document users) stored_fields)))) ''_id'' = None \<and>
   map_of (store (fst (snd (Document_set (new_document users) stored_fields)))) ''_rev'' = None \<and>
   map_of (store (fst (snd (Document_set (new_document users) stored_fields)))) ''_key'' = None \<and>
   map_of fields_without_rev ''_id'' \<noteq> None \<and> map_of fields_without_rev ''_rev'' = None \<and>
   distinct (map fst fields_without_rev) \<and>
   snd (snd (Document_set (new_document users) fields_without_rev))
     = [(''_key'', PStr ''1''), (''name'', PStr ''a'')] \<and>
   map_of (store (fst (snd (Document_set (new_document users) fields_without_rev)))) ''_key''
     = Some (PStr ''1'')"
proof -
  have h1: "map_of stored_fields ''_id'' \<noteq> None \<and> map_of stored_fields ''_rev'' \<noteq> None \<and>
      map_of stored_fields ''_key'' \<noteq> None"
    by (simp add: stored_fields_def)
  have h2: "map_of fields_without_rev ''_id'' \<noteq> None \<and> map_of fields_without_rev ''_rev'' = None"
    by (simp add: fields_without_rev_def)
  have h3: "distinct (map fst fields_without_rev)"
    by (simp add: fields_without_rev_def)
  have h4: "\<not> on_set (collection (new_document users))"
    by (simp add: new_document_def blank_def users_def)
  have r: "''_id'' \<in> set reserved_keys \<and> ''_rev'' \<in> set reserved_keys \<and> ''_key'' \<in> set reserved_keys"
    by (simp add: reserved_keys_def)
  have s0: "store (new_document users) = []"
    by (simp add: new_document_def blank_def)
  note t1 = set_reserved_keys [of stored_fields "new_document users"]
  note t2 = set_reserved_keys [of fields_without_rev "new_document users"]
  from t1 h1 have d1: "snd (snd (Document_set (new_document users) stored_fields))
      = AList.delete ''_key'' (AList.delete ''_rev'' (AList.delete ''_id'' stored_fields))"
    by blast
  then have d1': "snd (snd (Document_set (new_document users) stored_fields)) = [(''name'', PStr ''a'')]"
    by (simp add: stored_fields_def)
  from t1 h1 r have
    "map_of (store (fst (snd (Document_set (new_document users) stored_fields)))) ''_id''
       = map_of (store (new_document users)) ''_id'' \<and>
     map_of (store (fst (snd (Document_set (new_document users) stored_fields)))) ''_rev''
       = map_of (store (new_document users)) ''_rev'' \<and>
     map_of (store (fst (snd (Document_set (new_document users) stored_fields)))) ''_key''
       = map_of (store (new_document users)) ''_key''"
    by blast
  with s0 have k1:
    "map_of (store (fst (snd (Document_set (new_document users) stored_fields)))) ''_id'' = None \<and>
     map_of (store (fst (snd (Document_set (new_document users) stored_fields)))) ''_rev'' = None \<and>
     map_of (store (fst (snd (Document_set (new_document users) stored_fields)))) ''_key'' = None"
    by simp
  from t2 h2 have d2: "snd (snd (Document_set (new_document users) fields_without_rev))
      = AList.delete ''_id'' fields_without_rev"
    by blast
  then have d2': "snd (snd (Document_set (new_document users) fields_without_rev))
      = [(''_key'', PStr ''1''), (''name'', PStr ''a'')]"
    by (simp add: fields_without_rev_def)
  from t2 h4 have ok: "fst (Document_set (new_document users) fields_without_rev) = Inr ()"
    by blast
  have p: "map_of (snd (snd (Document_set (new_document users) fields_without_rev))) ''_key'' \<noteq> None"
    by (simp add: d2')
  from t2 h3 ok p have
    "map_of (store (fst (snd (Document_set (new_document users) fields_without_rev)))) ''_key''
      = map_of (snd (snd (Document_set (new_document users) fields_without_rev))) ''_key''"
    by blast
  then have k2: "map_of (store (fst (snd (Document_set (new_document users) fields_without_rev)))) ''_key''
      = Some (PStr ''1'')"
    by (simp add: d2')
  from h1 h2 h3 d1' k1 d2' k2 show ?thesis by blast
qed

text \<open>
  Claim C9 as stated fails when \<^verbatim>\<open>on_set\<close> is on and the field validator rejects a
  reserved key left in the dictionary: \<^verbatim>\<open>set\<close> raises and the key is not written into
  the store.
\<close>

theorem set_reserved_keys_counterexample:
  "map_of fields_without_rev ''_id'' \<noteq> None \<and> map_of fields_without_rev ''_rev'' = None \<and>
   snd (snd (Document_set (new_document schema_users) fields_without_rev))
     = [(''_key'', PStr ''1''), (''name'', PStr ''a'')] \<and>
   fst (Document_set (new_document schema_users) fields_without_rev) = Inl (SchemaViolation ''_key'') \<and>
   map_of (store (fst (snd (Document_set (new_document schema_users) fields_without_rev)))) ''_key''
     = None"
  by (simp add: Document_set_def setPrivates_def Document_setPrivates_def unset_privates_def
      Document_setitem_def new_document_def blank_def schema_users_def users_def
      fields_without_rev_def Let_def)

subsection \<open>set followed by save: the modified flag decides\<close>

text \<open>Field assignment leaves the collection of the document alone.\<close>

lemma setitem_collection: "collection (snd (Document_setitem self k v)) = collection self"
  by (simp add: setitem_cases split: option.splits)

lemma set_loop_collection: "collection (snd (set_loop self f ks)) = collection self"
proof (induction ks arbitrary: self)
  case Nil
  show ?case by simp
next
  case (Cons k ks)
  show ?case
  proof (cases "map_of f k")
    case None
    then show ?thesis by simp
  next
    case (Some v)
    obtain r s1 where p: "Document_setitem self k v = (r, s1)"
      by (cases "Document_setitem self k v")
    have c: "collection s1 = collection self"
      using setitem_collection [of self k v] p by simp
    show ?thesis
      using Some p c Cons.IH [of s1] by (cases r) simp_all
  qed
qed

text \<open>A dictionary with the three reserved keys and no other key is empty after \<^verbatim>\<open>setPrivates\<close>.\<close>

lemma delete_reserved_only:
  "set (map fst fd) \<subseteq> {a, b, c} \<Longrightarrow> AList.delete c (AList.delete b (AList.delete a fd)) = []"
  by (induction fd) auto

lemma setPrivates_reserved_only:
  assumes "map_of fd ''_id'' \<noteq> None" "map_of fd ''_rev'' \<noteq> None" "map_of fd ''_key'' \<noteq> None"
      and "set (map fst fd) \<subseteq> set reserved_keys"
  shows "snd (setPrivates self fd) = []"
proof -
  have "set (map fst fd) \<subseteq> {''_id'', ''_rev'', ''_key''}"
    using assms(4) by (simp add: reserved_keys_def)
  then have "AList.delete ''_key'' (AList.delete ''_rev'' (AList.delete ''_id'' fd)) = []"
    by (rule delete_reserved_only)
  with assms(1-3) show ?thesis
    by (auto simp: setPrivates_dict)
qed

text \<open>With \<^verbatim>\<open>on_set\<close> on, a \<^verbatim>\<open>set\<close> that returns with a key left has assigned it.\<close>

lemma setitem_returns_modified:
  "fst (Document_setitem self k v) = Inr () \<Longrightarrow> modified (snd (Document_setitem self k v))"
  by (auto simp: setitem_cases split: option.splits if_splits)

lemma set_loop_nonempty_modified:
  assumes ne: "ks \<noteq> []" and ok: "fst (set_loop self f ks) = Inr ()"
  shows "modified (snd (set_loop self f ks))"
proof -
  from ne obtain k ks' where ks: "ks = k # ks'" by (cases ks) auto
  show ?thesis
  proof (cases "map_of f k")
    case None
    with ok ks show ?thesis by simp
  next
    case (Some v)
    obtain r s1 where p: "Document_setitem self k v = (r, s1)"
      by (cases "Document_setitem self k v")
    show ?thesis
    proof (cases r)
      case (Inl e)
      with ok ks Some p show ?thesis by simp
    next
      case (Inr x)
      have m: "modified s1"
        using setitem_returns_modified [of self k v] p Inr by simp
      from set_loop_modified [OF m, of f ks'] ks Some p Inr show ?thesis by simp
    qed
  qed
qed

lemma set_assigns_modified:
  assumes on: "on_set (collection self)"
      and ok: "fst (Document_set self fd) = Inr ()"
      and ne: "snd (snd (Document_set self fd)) \<noteq> []"
  shows "modified (fst (snd (Document_set self fd)))"
proof -
  obtain s1 f1 where p: "setPrivates self fd = (s1, f1)"
    by (cases "setPrivates self fd")
  have c: "on_set (collection s1)"
    using setPrivates_frame [of self fd] p on by simp
  obtain r s2 where l: "set_loop s1 f1 (map fst f1) = (r, s2)"
    by (cases "set_loop s1 f1 (map fst f1)")
  from p c l have e: "Document_set self fd = (r, s2, f1)"
    by (simp add: Document_set_def)
  with ok ne have r: "r = Inr ()" and f: "map fst f1 \<noteq> []" by simp_all
  from set_loop_nonempty_modified [OF f, of s1 f1] l r have "modified s2" by simp
  with e show ?thesis by simp
qed

text \<open>A modified document of a collection that does not validate on save is sent.\<close>

lemma save_modified_sends:
  assumes m: "modified d" and ns: "\<not> on_save (collection d)"
  shows "\<exists>rq. snd (snd (Document_save srv d docArgs lg)) = lg @ [rq]"
  using m ns
  by (auto simp: Document_save_def requests_send_def Let_def
      split: option.splits sum.splits bool.splits)

text \<open>
  Claim C5, as amended. Let the document be unmodified before the call, and let
  \<^verbatim>\<open>on_set\<close> be off or the dictionary hold the three reserved keys and no other key.
  Then \<^verbatim>\<open>set\<close> returns, the document is still unmodified, and \<^verbatim>\<open>save\<close> returns at once:
  it changes nothing and sends no request. The conditions are needed. \<^verbatim>\<open>set\<close> never
  clears the modified flag: a document that is modified before it is modified after it.
  With \<^verbatim>\<open>on_set\<close> on, a \<^verbatim>\<open>set\<close> that returns and leaves a key in the dictionary, once the
  reserved keys are taken out, leaves the document modified. And when the document is
  modified after \<^verbatim>\<open>set\<close> and the collection does not validate on save, \<^verbatim>\<open>save\<close> sends a
  request.
\<close>

theorem set_then_save:
  "(\<not> modified self \<and>
    (\<not> on_set (collection self) \<or>
     (map_of fieldDict ''_id'' \<noteq> None \<and> map_of fieldDict ''_rev'' \<noteq> None \<and>
      map_of fieldDict ''_key'' \<noteq> None \<and> set (map fst fieldDict) \<subseteq> set reserved_keys)) \<longrightarrow>
      fst (Document_set self fieldDict) = Inr () \<and>
      \<not> modified (fst (snd (Document_set self fieldDict))) \<and>
      Document_save srv (fst (snd (Document_set self fieldDict))) docArgs lg
        = (Inr (), fst (snd (Document_set self fieldDict)), lg)) \<and>
   (modified self \<longrightarrow> modified (fst (snd (Document_set self fieldDict)))) \<and>
   (on_set (collection self) \<and> fst (Document_set self fieldDict) = Inr () \<and>
    snd (snd (Document_set self fieldDict)) \<noteq> [] \<longrightarrow>
      modified (fst (snd (Document_set self fieldDict)))) \<and>
   (modified (fst (snd (Document_set self fieldDict))) \<and> \<not> on_save (collection self) \<longrightarrow>
      (\<exists>rq. snd (snd (Document_save srv (fst (snd (Document_set self fieldDict))) docArgs lg))
         = lg @ [rq]))"
proof -
  let ?d = "fst (snd (Document_set self fieldDict))"
  have a: "fst (Document_set self fieldDict) = Inr () \<and> \<not> modified ?d \<and>
      Document_save srv ?d docArgs lg = (Inr (), ?d, lg)"
    if h: "\<not> modified self \<and>
      (\<not> on_set (collection self) \<or>
       (map_of fieldDict ''_id'' \<noteq> None \<and> map_of fieldDict ''_rev'' \<noteq> None \<and>
        map_of fieldDict ''_key'' \<noteq> None \<and> set (map fst fieldDict) \<subseteq> set reserved_keys))"
  proof -
    from h have c: "\<not> on_set (collection self) \<or> snd (setPrivates self fieldDict) = []"
      using setPrivates_reserved_only [of fieldDict self] by blast
    from set_without_assignment [OF c] h
    have "fst (Document_set self fieldDict) = Inr () \<and> \<not> modified ?d" by simp
    then show ?thesis by (simp add: Document_save_def)
  qed
  have b: "modified self \<longrightarrow> modified ?d"
    using set_keeps_modified by blast
  have c: "on_set (collection self) \<and> fst (Document_set self fieldDict) = Inr () \<and>
      snd (snd (Document_set self fieldDict)) \<noteq> [] \<longrightarrow> modified ?d"
    using set_assigns_modified by blast
  have col: "collection ?d = collection self"
  proof -
    obtain s1 f1 where p: "setPrivates self fieldDict = (s1, f1)"
      by (cases "setPrivates self fieldDict")
    have c1: "collection s1 = collection self"
      using setPrivates_frame [of self fieldDict] p by simp
    have "collection (snd (set_loop s1 f1 (map fst f1))) = collection s1"
      by (rule set_loop_collection)
    with p c1 show ?thesis
      by (auto simp: Document_set_def split: prod.splits)
  qed
  have d: "modified ?d \<and> \<not> on_save (collection self) \<longrightarrow>
      (\<exists>rq. snd (snd (Document_save srv ?d docArgs lg)) = lg @ [rq])"
    using save_modified_sends [of ?d srv docArgs lg] col by simp
  show ?thesis
    apply (intro conjI impI)
    subgoal using a by blast
    subgoal using a by blast
    subgoal using a by blast
    subgoal using b by blast
    subgoal using c by blast
    subgoal using d by blast
    done
qed

theorem set_then_save_witness:
  "\<not> modified (saved_document users) \<and> \<not> on_set (collection (saved_document users)) \<and>
   fst (Document_set (saved_document users) stored_fields) = Inr () \<and>
   \<not> modified (fst (snd (Document_set (saved_document users) stored_fields))) \<and>
   snd (snd (Document_save accepting_server
              (fst (snd (Document_set (saved_document users) stored_fields))) [] [])) = [] \<and>
   \<not> modified (saved_document typed_users) \<and> on_set (collection (saved_document typed_users)) \<and>
   set (map fst identity_fields) \<subseteq> set reserved_keys \<and>
   fst (Document_set (saved_document typed_users) identity_fields) = Inr () \<and>
   \<not> modified (fst (snd (Document_set (saved_document typed_users) identity_fields))) \<and>
   snd (snd (Document_save accepting_server
              (fst (snd (Document_set (saved_document typed_users) identity_fields))) [] [])) = []"
proof -
  have h1: "\<not> modified (saved_document users) \<and> \<not> on_set (collection (saved_document users))"
    by (simp add: saved_document_def new_document_def blank_def users_def)
  have h2: "\<not> modified (saved_document typed_users) \<and> on_set (collection (saved_document typed_users))"
    by (simp add: saved_document_def new_document_def blank_def typed_users_def users_def)
  have k: "map_of identity_fields ''_id'' \<noteq> None \<and> map_of identity_fields ''_rev'' \<noteq> None \<and>
      map_of identity_fields ''_key'' \<noteq> None \<and> set (map fst identity_fields) \<subseteq> set reserved_keys"
    by (simp add: identity_fields_def reserved_keys_def)
  have a: "fst (Document_set (saved_document users) stored_fields) = Inr () \<and>
      \<not> modified (fst (snd (Document_set (saved_document users) stored_fields))) \<and>
      Document_save accepting_server (fst (snd (Document_set (saved_document users) stored_fields))) [] []
        = (Inr (), fst (snd (Document_set (saved_document users) stored_fields)), [])"
    using set_then_save [of "saved_document users" stored_fields accepting_server "[]" "[]",
        THEN conjunct1] h1
    by blast
  have b: "fst (Document_set (saved_document typed_users) identity_fields) = Inr () \<and>
      \<not> modified (fst (snd (Document_set (saved_document typed_users) identity_fields))) \<and>
      Document_save accepting_server
          (fst (snd (Document_set (saved_document typed_users) identity_fields))) [] []
        = (Inr (), fst (snd (Document_set (saved_document typed_users) identity_fields)), [])"
    using set_then_save [of "saved_document typed_users" identity_fields accepting_server "[]" "[]",
        THEN conjunct1] h2 k
    by blast
  from h1 h2 k a b show ?thesis by simp
qed

text \<open>
  Claim C5 as stated fails on a document that is modified before the call, as every
  newly constructed document is: after \<^verbatim>\<open>set\<close> with a server's fields the flag is still
  set and \<^verbatim>\<open>save\<close> sends a PUT request. It fails also on an unmodified document of a
  collection with \<^verbatim>\<open>on_set\<close> on: \<^verbatim>\<open>set\<close> assigns the field \<^verbatim>\<open>name\<close> of the server's fields,
  which sets the flag, and \<^verbatim>\<open>save\<close> sends a PUT request.
\<close>

theorem set_then_save_counterexample:
  "fst (Document_init users []) = Inr (new_document users) \<and>
   fst (Document_set (new_document users) stored_fields) = Inr () \<and>
   modified (fst (snd (Document_set (new_document users) stored_fields))) \<and>
   snd (snd (Document_save accepting_server (fst (snd (Document_set (new_document users) stored_fields))) [] []))
     = [\<lparr>verb = PUT, url = ''http://localhost:8529/_api/document/users/1'',
         params = [(''collection'', PStr ''users'')], payload = Some [(''name'', PStr ''a'')]\<rparr>] \<and>
   \<not> modified (saved_document typed_users) \<and>
   fst (Document_set (saved_document typed_users) stored_fields) = Inr () \<and>
   modified (fst (snd (Document_set (saved_document typed_users) stored_fields))) \<and>
   snd (snd (Document_save accepting_server
              (fst (snd (Document_set (saved_document typed_users) stored_fields))) [] []))
     = [\<lparr>verb = PUT, url = ''http://localhost:8529/_api/document/users/1'',
         params = [(''collection'', PStr ''users'')], payload = Some [(''name'', PStr ''a'')]\<rparr>]"
  by (simp add: Document_init_def Document_reset_def Document_set_def setPrivates_def
      Document_setPrivates_def unset_privates_def Document_setitem_def new_document_def
      saved_document_def blank_def users_def typed_users_def
      stored_fields_def dict_update_def Document_save_def requests_send_def accepting_server_def
      accepted_def Let_def)

subsection \<open>Saving a copy\<close>

text \<open>With all three reserved keys in the dictionary, \<^verbatim>\<open>setPrivates\<close> takes them over.\<close>

lemma Document_setPrivates_all:
  "map_of data ''_id'' = Some i \<Longrightarrow> map_of data ''_rev'' = Some rv \<Longrightarrow> map_of data ''_key'' = Some k \<Longrightarrow>
    doc_id (fst (Document_setPrivates s data)) = i \<and>
    doc_rev (fst (Document_setPrivates s data)) = rv \<and>
    doc_key (fst (Document_setPrivates s data)) = k \<and>
    URL (fst (Document_setPrivates s data)) = Some (documentsURL s @ ''/'' @ py_str i)"
  by (simp add: Document_setPrivates_def Let_def delete_conv')

lemma setPrivates_all:
  "map_of data ''_id'' = Some i \<Longrightarrow> map_of data ''_rev'' = Some rv \<Longrightarrow> map_of data ''_key'' = Some k \<Longrightarrow>
    doc_id (fst (setPrivates s data)) = i \<and>
    doc_rev (fst (setPrivates s data)) = rv \<and>
    doc_key (fst (setPrivates s data)) = k \<and>
    URL (fst (setPrivates s data)) = Some (documentsURL s @ ''/'' @ py_str i)"
  using Document_setPrivates_all [of data i rv k]
  by (simp add: setPrivates_def Edge_setPrivates_def Let_def split: py_class.splits option.splits)

lemma saveCopy_reset_state:
  "Document_reset self (collection self) [] = (Inr (), s1, []) \<Longrightarrow>
    store s1 = [] \<and> patchStore s1 = [] \<and> modified s1 \<and> URL s1 = None \<and>
    doc_id s1 = PNone \<and> doc_rev s1 = PNone \<and> doc_key s1 = PNone \<and>
    collection s1 = collection self \<and> documentsURL s1 = coll_documentsURL (collection self) \<and>
    py_class s1 = py_class self"
  using Document_reset_empty_state [of self "collection self"] by simp

lemma saveCopy_accepted:
  assumes cl: "py_class self = DocumentClass"
      and ns: "\<not> on_save (collection self)"
      and j: "json (srv lg (copy_request (collection self))) = Some data"
      and sc: "status_code (srv lg (copy_request (collection self))) = 201 \<or>
               status_code (srv lg (copy_request (collection self))) = 202"
      and e: "map_of data ''error'' = Some e" "\<not> truthy e"
  shows "Document_saveCopy srv self lg
       = (Inr (doc_key self,
               doc_key (fst (setPrivates (fst (snd (Document_reset self (collection self) []))) data))),
          (fst (setPrivates (fst (snd (Document_reset self (collection self) []))) data))\<lparr>modified := False\<rparr>,
          lg @ [copy_request (collection self)])"
proof -
  let ?c = "collection self"
  obtain s1 where rs: "Document_reset self ?c [] = (Inr (), s1, [])"
    using Document_reset_empty by blast
  note st = saveCopy_reset_state [OF rs]
  have acc: "accepted (srv lg (copy_request ?c)) data = Inr True"
    using e sc by (auto simp: accepted_def)
  have sv: "save srv s1 [] lg
      = (Inr (), (fst (setPrivates s1 data))\<lparr>modified := False\<rparr>, lg @ [copy_request ?c])"
    using st cl ns j acc
    by (simp add: save_def Document_save_def requests_send_def copy_request_def dict_update_def)
  show ?thesis
    using rs sv by (simp add: Document_saveCopy_def)
qed

lemma saveCopy_refused:
  assumes cl: "py_class self = DocumentClass"
      and ns: "\<not> on_save (collection self)"
      and j: "json (srv lg (copy_request (collection self))) = Some data"
      and m: "map_of data ''errorMessage'' = Some m"
      and sc: "(status_code (srv lg (copy_request (collection self))) \<noteq> 201 \<and>
                status_code (srv lg (copy_request (collection self))) \<noteq> 202) \<or>
               (\<exists>e. map_of data ''error'' = Some e \<and> truthy e)"
  shows "fst (Document_saveCopy srv self lg) = Inl (CreationError m data)"
proof -
  let ?c = "collection self"
  obtain s1 where rs: "Document_reset self ?c [] = (Inr (), s1, [])"
    using Document_reset_empty by blast
  note st = saveCopy_reset_state [OF rs]
  have acc: "accepted (srv lg (copy_request ?c)) data = Inr False"
    using sc by (auto simp: accepted_def)
  have sv: "save srv s1 [] lg = (Inl (CreationError m data), s1, lg @ [copy_request ?c])"
    using st cl ns j acc m
    by (simp add: save_def Document_save_def requests_send_def copy_request_def dict_update_def
        server_error_def)
  show ?thesis
    using rs sv by (simp add: Document_saveCopy_def)
qed

lemma saveCopy_always:
  assumes cl: "py_class self = DocumentClass"
      and ns: "\<not> on_save (collection self)"
  shows "snd (snd (Document_saveCopy srv self lg)) = lg @ [copy_request (collection self)] \<and>
     store (fst (snd (Document_saveCopy srv self lg))) = [] \<and>
     patchStore (fst (snd (Document_saveCopy srv self lg))) = [] \<and>
     (\<forall>e. fst (Document_saveCopy srv self lg) = Inl e \<longrightarrow>
        doc_id (fst (snd (Document_saveCopy srv self lg))) = PNone \<and>
        doc_rev (fst (snd (Document_saveCopy srv self lg))) = PNone \<and>
        doc_key (fst (snd (Document_saveCopy srv self lg))) = PNone \<and>
        URL (fst (snd (Document_saveCopy srv self lg))) = None \<and>
        modified (fst (snd (Document_saveCopy srv self lg))))"
proof -
  let ?c = "collection self"
  obtain s1 where rs: "Document_reset self ?c [] = (Inr (), s1, [])"
    using Document_reset_empty by blast
  note st = saveCopy_reset_state [OF rs]
  have fr: "\<forall>data. store (fst (setPrivates s1 data)) = [] \<and> patchStore (fst (setPrivates s1 data)) = []"
    using setPrivates_frame [of s1] st by simp
  obtain r s2 lg1 where sv: "save srv s1 [] lg = (r, s2, lg1)"
    by (cases "save srv s1 [] lg")
  have lg1: "lg1 = lg @ [copy_request ?c]"
    using sv st cl ns
    by (auto simp: save_def Document_save_def requests_send_def copy_request_def dict_update_def
        Let_def split: option.splits sum.splits bool.splits)
  have s2: "store s2 = [] \<and> patchStore s2 = []"
    using sv st cl ns fr
    by (auto simp: save_def Document_save_def requests_send_def dict_update_def
        Let_def split: option.splits sum.splits bool.splits)
  have fail: "\<forall>e. r = Inl e \<longrightarrow> s2 = s1"
    using sv st cl ns
    by (auto simp: save_def Document_save_def requests_send_def dict_update_def
        Let_def split: option.splits sum.splits bool.splits)
  show ?thesis
    using rs sv lg1 s2 fail st
    by (cases r) (auto simp: Document_saveCopy_def)
qed

text \<open>
  Claim C8, as amended. On an instance of \<^verbatim>\<open>Document\<close> whose collection does not validate
  on save, \<^verbatim>\<open>saveCopy\<close> resets the object and sends one POST request with an empty store
  to the collection's address, whatever the server answers: afterwards store and patch
  store are empty. When the answer has status 201 or 202 and decodes to a dictionary
  whose error flag is present and falsy, \<^verbatim>\<open>saveCopy\<close> returns the pair of the key held
  before the call and the key held after it, the document is unmodified, and when the
  answer carries the three reserved keys they are the new identity. When the answer
  decodes to a dictionary that carries the server's error message, and the status is
  another one or the error flag is truthy, \<^verbatim>\<open>saveCopy\<close> raises \<^verbatim>\<open>CreationError\<close>. Whenever
  it raises, the document is left as the reset made it: without id, revision, key or
  address, and modified. On an instance of \<^verbatim>\<open>Edge\<close> the inherited method raises after
  the reset, since \<^verbatim>\<open>Edge.save\<close> asks for the two vertices, and sends nothing.
\<close>

theorem saveCopy_outcome:
  "(py_class self = DocumentClass \<and> \<not> on_save (collection self) \<longrightarrow>
      snd (snd (Document_saveCopy srv self lg)) = lg @ [copy_request (collection self)] \<and>
      store (fst (snd (Document_saveCopy srv self lg))) = [] \<and>
      patchStore (fst (snd (Document_saveCopy srv self lg))) = [] \<and>
      (\<forall>e. fst (Document_saveCopy srv self lg) = Inl e \<longrightarrow>
         doc_id (fst (snd (Document_saveCopy srv self lg))) = PNone \<and>
         doc_rev (fst (snd (Document_saveCopy srv self lg))) = PNone \<and>
         doc_key (fst (snd (Document_saveCopy srv self lg))) = PNone \<and>
         URL (fst (snd (Document_saveCopy srv self lg))) = None \<and>
         modified (fst (snd (Document_saveCopy srv self lg)))) \<and>
      (\<forall>data e.
         json (srv lg (copy_request (collection self))) = Some data \<and>
         (status_code (srv lg (copy_request (collection self))) = 201 \<or>
          status_code (srv lg (copy_request (collection self))) = 202) \<and>
         map_of data ''error'' = Some e \<and> \<not> truthy e \<longrightarrow>
           fst (Document_saveCopy srv self lg)
             = Inr (doc_key self, doc_key (fst (snd (Document_saveCopy srv self lg)))) \<and>
           \<not> modified (fst (snd (Document_saveCopy srv self lg))) \<and>
           (\<forall>i rv k.
              map_of data ''_id'' = Some i \<and> map_of data ''_rev'' = Some rv \<and>
              map_of data ''_key'' = Some k \<longrightarrow>
                doc_id (fst (snd (Document_saveCopy srv self lg))) = i \<and>
                doc_rev (fst (snd (Document_saveCopy srv self lg))) = rv \<and>
                doc_key (fst (snd (Document_saveCopy srv self lg))) = k \<and>
                URL (fst (snd (Document_saveCopy srv self lg)))
                  = Some (coll_documentsURL (collection self) @ ''/'' @ py_str i))) \<and>
      (\<forall>data m.
         json (srv lg (copy_request (collection self))) = Some data \<and>
         map_of data ''errorMessage'' = Some m \<and>
         ((status_code (srv lg (copy_request (collection self))) \<noteq> 201 \<and>
           status_code (srv lg (copy_request (collection self))) \<noteq> 202) \<or>
          (\<exists>e. map_of data ''error'' = Some e \<and> truthy e)) \<longrightarrow>
           fst (Document_saveCopy srv self lg) = Inl (CreationError m data))) \<and>
   (py_class self = EdgeClass \<longrightarrow>
      fst (Document_saveCopy srv self lg)
        = Inl (ValueError ''The first time you save an Edge you must specify the from and to vertices'') \<and>
      snd (snd (Document_saveCopy srv self lg)) = lg)"
proof -
  let ?R = "Document_saveCopy srv self lg"
  let ?c = "collection self"
  let ?s1 = "fst (snd (Document_reset self (collection self) []))"
  have acc: "fst ?R = Inr (doc_key self, doc_key (fst (snd ?R))) \<and>
           \<not> modified (fst (snd ?R)) \<and>
           (\<forall>i rv k.
              map_of data ''_id'' = Some i \<and> map_of data ''_rev'' = Some rv \<and>
              map_of data ''_key'' = Some k \<longrightarrow>
                doc_id (fst (snd ?R)) = i \<and> doc_rev (fst (snd ?R)) = rv \<and>
                doc_key (fst (snd ?R)) = k \<and>
                URL (fst (snd ?R)) = Some (coll_documentsURL ?c @ ''/'' @ py_str i))"
    if cl: "py_class self = DocumentClass" and ns: "\<not> on_save ?c"
      and h: "json (srv lg (copy_request ?c)) = Some data \<and>
         (status_code (srv lg (copy_request ?c)) = 201 \<or>
          status_code (srv lg (copy_request ?c)) = 202) \<and>
         map_of data ''error'' = Some e \<and> \<not> truthy e"
    for data e
  proof -
    have r: "?R = (Inr (doc_key self, doc_key (fst (setPrivates ?s1 data))),
              (fst (setPrivates ?s1 data))\<lparr>modified := False\<rparr>, lg @ [copy_request ?c])"
      using saveCopy_accepted [OF cl ns, of srv lg data e] h by blast
    have du: "documentsURL ?s1 = coll_documentsURL ?c"
      using Document_reset_empty_state [of self ?c] by simp
    have ids: "\<forall>i rv k.
              map_of data ''_id'' = Some i \<and> map_of data ''_rev'' = Some rv \<and>
              map_of data ''_key'' = Some k \<longrightarrow>
                doc_id (fst (setPrivates ?s1 data)) = i \<and>
                doc_rev (fst (setPrivates ?s1 data)) = rv \<and>
                doc_key (fst (setPrivates ?s1 data)) = k \<and>
                URL (fst (setPrivates ?s1 data)) = Some (coll_documentsURL ?c @ ''/'' @ py_str i)"
      using setPrivates_all [of data _ _ _ ?s1] du by simp
    from r ids show ?thesis by simp
  qed
  have doc: "snd (snd ?R) = lg @ [copy_request ?c] \<and>
      store (fst (snd ?R)) = [] \<and> patchStore (fst (snd ?R)) = [] \<and>
      (\<forall>e. fst ?R = Inl e \<longrightarrow>
         doc_id (fst (snd ?R)) = PNone \<and> doc_rev (fst (snd ?R)) = PNone \<and>
         doc_key (fst (snd ?R)) = PNone \<and> URL (fst (snd ?R)) = None \<and>
         modified (fst (snd ?R)))"
    if "py_class self = DocumentClass" and "\<not> on_save ?c"
    using saveCopy_always [OF that] by blast
  have ref: "\<forall>data m.
         json (srv lg (copy_request ?c)) = Some data \<and>
         map_of data ''errorMessage'' = Some m \<and>
         ((status_code (srv lg (copy_request ?c)) \<noteq> 201 \<and>
           status_code (srv lg (copy_request ?c)) \<noteq> 202) \<or>
          (\<exists>e. map_of data ''error'' = Some e \<and> truthy e)) \<longrightarrow>
           fst ?R = Inl (CreationError m data)"
    if "py_class self = DocumentClass" and "\<not> on_save ?c"
    using saveCopy_refused [OF that] by blast
  have edge: "py_class self = EdgeClass \<longrightarrow>
      fst ?R = Inl (ValueError ''The first time you save an Edge you must specify the from and to vertices'') \<and>
      snd (snd ?R) = lg"
  proof
    assume cl: "py_class self = EdgeClass"
    obtain s1 where rs: "Document_reset self ?c [] = (Inr (), s1, [])"
      using Document_reset_empty by blast
    have st: "URL s1 = None \<and> py_class s1 = EdgeClass"
      using saveCopy_reset_state [OF rs] cl by simp
    show "fst ?R = Inl (ValueError ''The first time you save an Edge you must specify the from and to vertices'') \<and>
      snd (snd ?R) = lg"
      using rs st by (simp add: Document_saveCopy_def save_def Edge_save_def keyword_def)
  qed
  show ?thesis
    apply (intro conjI impI)
    subgoal using doc by blast
    subgoal using doc by blast
    subgoal using doc by blast
    subgoal using doc by blast
    subgoal using acc by blast
    subgoal using ref by blast
    subgoal using edge by blast
    subgoal using edge by blast
    done
qed

theorem saveCopy_outcome_witness:
  "py_class (saved_document users) = DocumentClass \<and>
   \<not> on_save (collection (saved_document users)) \<and>
   store (saved_document users) = [(''name'', PStr ''a'')] \<and>
   status_code (accepting_server [] (copy_request (collection (saved_document users)))) = 201 \<and>
   fst (Document_saveCopy accepting_server (saved_document users) []) = Inr (PStr ''1'', PStr ''2'') \<and>
   snd (snd (Document_saveCopy accepting_server (saved_document users) []))
     = [copy_request (collection (saved_document users))] \<and>
   store (fst (snd (Document_saveCopy accepting_server (saved_document users) []))) = [] \<and>
   doc_id (fst (snd (Document_saveCopy accepting_server (saved_document users) []))) = PStr ''users/2'' \<and>
   snd (snd (Document_saveCopy refusing_server (saved_document users) []))
     = [copy_request (collection (saved_document users))] \<and>
   store (fst (snd (Document_saveCopy refusing_server (saved_document users) []))) = []"
proof -
  let ?d = "saved_document users"
  let ?ok = "[(''error'', PBool False), (''_id'', PStr ''users/2''), (''_rev'', PStr ''8''),
              (''_key'', PStr ''2'')]"
  have h: "py_class ?d = DocumentClass \<and> \<not> on_save (collection ?d)"
    by (simp add: saved_document_def new_document_def blank_def users_def)
  have st: "store ?d = [(''name'', PStr ''a'')] \<and> doc_key ?d = PStr ''1''"
    by (simp add: saved_document_def)
  have sc: "status_code (accepting_server [] (copy_request (collection ?d))) = 201"
    by (simp add: accepting_server_def copy_request_def)
  have j: "json (accepting_server [] (copy_request (collection ?d))) = Some ?ok"
    by (simp add: accepting_server_def)
  have m: "map_of ?ok ''error'' = Some (PBool False) \<and> \<not> truthy (PBool False) \<and>
      map_of ?ok ''_id'' = Some (PStr ''users/2'') \<and> map_of ?ok ''_rev'' = Some (PStr ''8'') \<and>
      map_of ?ok ''_key'' = Some (PStr ''2'')"
    by simp
  have hj: "json (accepting_server [] (copy_request (collection ?d))) = Some ?ok \<and>
      (status_code (accepting_server [] (copy_request (collection ?d))) = 201 \<or>
       status_code (accepting_server [] (copy_request (collection ?d))) = 202) \<and>
      map_of ?ok ''error'' = Some (PBool False) \<and> \<not> truthy (PBool False)"
    using sc j m by simp
  have hk: "map_of ?ok ''_id'' = Some (PStr ''users/2'') \<and> map_of ?ok ''_rev'' = Some (PStr ''8'') \<and>
      map_of ?ok ''_key'' = Some (PStr ''2'')"
    by simp
  note t = saveCopy_outcome [of ?d accepting_server "[]", THEN conjunct1, THEN mp, OF h]
  note t' = saveCopy_outcome [of ?d refusing_server "[]", THEN conjunct1, THEN mp, OF h]
  note lg1 = t [THEN conjunct1]
  note st1 = t [THEN conjunct2, THEN conjunct1]
  note lg2 = t' [THEN conjunct1]
  note st2 = t' [THEN conjunct2, THEN conjunct1]
  note ac = t [THEN conjunct2, THEN conjunct2, THEN conjunct2, THEN conjunct2, THEN conjunct1,
      THEN spec, THEN spec, THEN mp, OF hj]
  note pair = ac [THEN conjunct1]
  note ids = ac [THEN conjunct2, THEN conjunct2, THEN spec, THEN spec, THEN spec, THEN mp, OF hk]
  from pair ids st have c: "fst (Document_saveCopy accepting_server ?d []) = Inr (PStr ''1'', PStr ''2'')"
    by simp
  from ids have i: "doc_id (fst (snd (Document_saveCopy accepting_server ?d []))) = PStr ''users/2''"
    by simp
  from h st sc lg1 st1 lg2 st2 c i show ?thesis by simp
qed

text \<open>
  Claim C8 as stated fails on a persisted document whose collection validates on save:
  \<^verbatim>\<open>saveCopy\<close> resets the document, then raises; no request is sent and no pair is
  returned. It fails also when the server refuses the POST: \<^verbatim>\<open>saveCopy\<close> raises
  \<^verbatim>\<open>CreationError\<close>, and the document is left without identity. And it fails on a
  persisted edge: the inherited \<^verbatim>\<open>saveCopy\<close> raises after the reset and sends nothing.
\<close>

theorem saveCopy_outcome_counterexample:
  "URL (saved_document strict_users) \<noteq> None \<and>
   fst (Document_saveCopy accepting_server (saved_document strict_users) [])
     = Inl (TypeError ''validate() got an unexpected keyword argument logErrors'') \<and>
   snd (snd (Document_saveCopy accepting_server (saved_document strict_users) [])) = [] \<and>
   URL (fst (snd (Document_saveCopy accepting_server (saved_document strict_users) []))) = None \<and>
   URL (saved_document users) \<noteq> None \<and>
   fst (Document_saveCopy refusing_server (saved_document users) [])
     = Inl (CreationError (PStr ''document not found'')
         [(''error'', PBool True), (''errorMessage'', PStr ''document not found''),
          (''code'', PInt 404)]) \<and>
   doc_key (fst (snd (Document_saveCopy refusing_server (saved_document users) []))) = PNone \<and>
   URL (saved_edge users) \<noteq> None \<and>
   fst (Document_saveCopy accepting_server (saved_edge users) [])
     = Inl (ValueError ''The first time you save an Edge you must specify the from and to vertices'') \<and>
   snd (snd (Document_saveCopy accepting_server (saved_edge users) [])) = []"
  by (simp add: Document_saveCopy_def Document_reset_def Document_set_def setPrivates_def
      Document_setPrivates_def Edge_setPrivates_def unset_privates_def save_def Document_save_def
      Edge_save_def keyword_def
      call_validate_logErrors saved_document_def saved_edge_def new_document_def blank_def
      strict_users_def users_def dict_update_def requests_send_def refusing_server_def
      accepted_def server_error_def Let_def)

subsection \<open>The identity attributes are set together\<close>

text \<open>
  \<^verbatim>\<open>setPrivates\<close> establishes the invariant from any state, when no reserved key of the
  dictionary holds \<^verbatim>\<open>None\<close>; every method that does not call it leaves the four
  attributes alone or, on an update, replaces the revision of a persisted document.
\<close>

lemma identity_inv_cong:
  "doc_id a = doc_id b \<Longrightarrow> doc_rev a = doc_rev b \<Longrightarrow> doc_key a = doc_key b \<Longrightarrow> URL a = URL b \<Longrightarrow>
    identity_inv a = identity_inv b"
  by (simp add: identity_inv_def)

lemma Document_setPrivates_inv:
  "reserved_not_None fd \<Longrightarrow> identity_inv (fst (Document_setPrivates s fd))"
  by (auto simp: reserved_not_None_def reserved_keys_def Document_setPrivates_def unset_privates_def
      identity_inv_def Let_def delete_conv' split: option.splits)

lemma setPrivates_inv:
  "reserved_not_None fd \<Longrightarrow> identity_inv (fst (setPrivates s fd))"
  by (simp add: setPrivates_def Edge_setPrivates_def Document_setPrivates_inv Let_def
      split: py_class.splits option.splits)

lemma setitem_inv: "identity_inv (snd (Document_setitem self k v)) = identity_inv self"
  by (rule identity_inv_cong) (simp_all add: setitem_cases split: option.splits)

lemma set_loop_inv: "identity_inv (snd (set_loop self f ks)) = identity_inv self"
proof (induction ks arbitrary: self)
  case Nil
  show ?case by simp
next
  case (Cons k ks)
  show ?case
  proof (cases "map_of f k")
    case None
    then show ?thesis by simp
  next
    case (Some v)
    obtain r s1 where p: "Document_setitem self k v = (r, s1)"
      by (cases "Document_setitem self k v")
    have i: "identity_inv s1 = identity_inv self"
      using setitem_inv [of self k v] p by simp
    show ?thesis
      using Some p i Cons.IH [of s1] by (cases r) simp_all
  qed
qed

lemma set_inv:
  assumes "reserved_not_None fd"
  shows "identity_inv (fst (snd (Document_set self fd)))"
proof -
  obtain s1 f1 where p: "setPrivates self fd = (s1, f1)"
    by (cases "setPrivates self fd")
  have i: "identity_inv s1"
    using setPrivates_inv [OF assms, of self] p by simp
  have u: "identity_inv (s1\<lparr>store := dict_update (store s1) f1\<rparr>) = identity_inv s1"
    by (rule identity_inv_cong) simp_all
  show ?thesis
    using p i u set_loop_inv [of s1 f1 "map fst f1"]
    by (auto simp: Document_set_def split: prod.splits)
qed

lemma reset_inv:
  assumes "reserved_not_None fd"
  shows "identity_inv (fst (snd (Document_reset self c fd)))"
proof -
  let ?s1 = "self\<lparr>collection := c, documentsURL := coll_documentsURL c, store := [], patchStore := []\<rparr>"
  obtain r s2 f1 where p: "Document_set ?s1 fd = (r, s2, f1)"
    by (cases "Document_set ?s1 fd")
  have i: "identity_inv s2"
    using set_inv [OF assms, of ?s1] p by simp
  have u: "identity_inv (s2\<lparr>modified := True\<rparr>) = identity_inv s2"
    by (rule identity_inv_cong) simp_all
  show ?thesis
    using p i u by (cases r) (simp_all add: Document_reset_def)
qed

lemma init_inv:
  assumes "reserved_not_None fd"
  shows "(\<forall>d. fst (Document_init c fd) = Inr d \<longrightarrow> identity_inv d) \<and>
         (\<forall>d. fst (Edge_init c fd) = Inr d \<longrightarrow> identity_inv d)"
proof -
  have a: "identity_inv (fst (snd (Document_reset (blank DocumentClass c) c fd)))"
    using reset_inv [OF assms] by blast
  have b: "identity_inv (fst (snd (Document_reset (blank EdgeClass c) c fd)))"
    using reset_inv [OF assms] by blast
  from a b show ?thesis
    by (auto simp: Document_init_def Edge_init_def Edge_reset_def split: prod.splits sum.splits)
qed

lemma Document_save_inv:
  assumes srv: "\<forall>lg rq data. json (srv lg rq) = Some data \<longrightarrow> reserved_not_None data"
      and inv: "identity_inv self"
  shows "identity_inv (fst (snd (Document_save srv self docArgs lg)))"
proof (cases "modified self \<and> \<not> on_save (collection self)")
  case False
  with inv show ?thesis
    by (auto simp: Document_save_def call_validate_logErrors)
next
  case True
  let ?params = "dict_update docArgs [(''collection'', PStr (coll_name (collection self)))]"
  show ?thesis
  proof (cases "URL self")
    case None
    let ?rq = "\<lparr>verb = POST, url = documentsURL self, params = ?params, payload = Some (store self)\<rparr>"
    show ?thesis
    proof (cases "json (srv lg ?rq)")
      case n: None
      with True None inv show ?thesis
        by (simp add: Document_save_def requests_send_def Let_def)
    next
      case (Some data)
      with srv have rn: "reserved_not_None data" by blast
      have i: "identity_inv ((fst (setPrivates self data))\<lparr>modified := False\<rparr>)"
        using setPrivates_inv [OF rn, of self]
          identity_inv_cong [of "(fst (setPrivates self data))\<lparr>modified := False\<rparr>" "fst (setPrivates self data)"]
        by simp
      from True None Some inv i show ?thesis
        by (auto simp: Document_save_def requests_send_def Let_def split: sum.splits bool.splits)
    qed
  next
    case (Some u)
    let ?rq = "\<lparr>verb = PUT, url = u, params = ?params, payload = Some (store self)\<rparr>"
    show ?thesis
    proof (cases "json (srv lg ?rq)")
      case None
      with True Some inv show ?thesis
        by (simp add: Document_save_def requests_send_def Let_def)
    next
      case d: (Some data)
      with srv have rn: "reserved_not_None data" by blast
      have i: "\<forall>rv. map_of data ''_rev'' = Some rv \<longrightarrow>
          identity_inv (self\<lparr>doc_rev := rv, modified := False\<rparr>)"
        using rn inv Some
        by (auto simp: reserved_not_None_def reserved_keys_def identity_inv_def)
      from True Some d inv i show ?thesis
        by (auto simp: Document_save_def requests_send_def Let_def
            split: sum.splits bool.splits option.splits)
    qed
  qed
qed

lemma Edge_save_inv:
  assumes srv: "\<forall>lg rq data. json (srv lg rq) = Some data \<longrightarrow> reserved_not_None data"
      and inv: "identity_inv self"
  shows "identity_inv (fst (snd (Edge_save srv self fromVertice toVertice edgeArgs lg)))"
proof -
  have i: "\<And>a b. identity_inv (self\<lparr>edge_from := a, edge_to := b\<rparr>)"
    using inv identity_inv_cong [of "self\<lparr>edge_from := _, edge_to := _\<rparr>" self] by simp
  show ?thesis
    using inv Document_save_inv [OF srv i]
    by (auto simp: Edge_save_def Let_def split: sum.splits)
qed

lemma save_inv:
  assumes srv: "\<forall>lg rq data. json (srv lg rq) = Some data \<longrightarrow> reserved_not_None data"
      and inv: "identity_inv self"
  shows "identity_inv (fst (snd (save srv self docArgs lg)))"
  using Document_save_inv [OF srv inv] Edge_save_inv [OF srv inv]
  by (simp add: save_def split: py_class.splits)

lemma forceSave_inv:
  assumes srv: "\<forall>lg rq data. json (srv lg rq) = Some data \<longrightarrow> reserved_not_None data"
      and inv: "identity_inv self"
  shows "identity_inv (fst (snd (Document_forceSave srv self docArgs lg)))"
proof -
  have "identity_inv (self\<lparr>modified := True\<rparr>)"
    using inv identity_inv_cong [of "self\<lparr>modified := True\<rparr>" self] by simp
  from save_inv [OF srv this] show ?thesis
    by (simp add: Document_forceSave_def)
qed

lemma reserved_not_None_empty: "reserved_not_None []"
  by (simp add: reserved_not_None_def)

lemma saveCopy_inv:
  assumes srv: "\<forall>lg rq data. json (srv lg rq) = Some data \<longrightarrow> reserved_not_None data"
  shows "identity_inv (fst (snd (Document_saveCopy srv self lg)))"
proof -
  obtain s1 where rs: "Document_reset self (collection self) [] = (Inr (), s1, [])"
    using Document_reset_empty by blast
  have i: "identity_inv s1"
    using reset_inv [OF reserved_not_None_empty, of self "collection self"] rs by simp
  obtain r s2 lg1 where sv: "save srv s1 [] lg = (r, s2, lg1)"
    by (cases "save srv s1 [] lg")
  have "identity_inv s2"
    using save_inv [OF srv i, of "[]" lg] sv by simp
  with rs sv show ?thesis
    by (cases r) (simp_all add: Document_saveCopy_def)
qed

lemma patch_inv:
  assumes srv: "\<forall>lg rq data. json (srv lg rq) = Some data \<longrightarrow> reserved_not_None data"
      and inv: "identity_inv self"
  shows "identity_inv (fst (snd (Document_patch srv self keepNull docArgs lg)))"
proof (cases "URL self")
  case None
  with inv show ?thesis
    by (simp add: Document_patch_def call_validate_logErrors)
next
  case (Some u)
  let ?rq = "\<lparr>verb = PATCH, url = u,
      params = dict_update docArgs
        [(''collection'', PStr (coll_name (collection self))), (''keepNull'', keepNull)],
      payload = Some (patchStore self)\<rparr>"
  show ?thesis
  proof (cases "json (srv lg ?rq)")
    case None
    with Some inv show ?thesis
      by (simp add: Document_patch_def call_validate_logErrors requests_send_def Let_def)
  next
    case d: (Some data)
    with srv have rn: "reserved_not_None data" by blast
    have i: "\<forall>rv. map_of data ''_rev'' = Some rv \<longrightarrow>
        identity_inv (self\<lparr>doc_rev := rv, modified := False\<rparr>)"
      using rn inv Some
      by (auto simp: reserved_not_None_def reserved_keys_def identity_inv_def)
    from Some d inv i show ?thesis
      by (auto simp: Document_patch_def call_validate_logErrors requests_send_def Let_def
          split: sum.splits bool.splits option.splits)
  qed
qed

lemma delete_inv:
  assumes inv: "identity_inv self"
  shows "identity_inv (fst (snd (Document_delete srv self lg)))"
proof -
  obtain s1 where rs: "Document_reset self (collection self) [] = (Inr (), s1, [])"
    using Document_reset_empty by blast
  have "identity_inv s1"
    using reset_inv [OF reserved_not_None_empty, of self "collection self"] rs by simp
  then have i: "identity_inv (s1\<lparr>modified := True\<rparr>)"
    using identity_inv_cong [of "s1\<lparr>modified := True\<rparr>" s1] by simp
  from inv rs i show ?thesis
    by (auto simp: Document_delete_def requests_send_def
        split: option.splits sum.splits bool.splits)
qed

text \<open>
  Claim C7, as amended. Suppose that no dictionary given to a constructor, to
  \<^verbatim>\<open>reset\<close> or to \<^verbatim>\<open>set\<close>, and no decoded answer of the server, holds \<^verbatim>\<open>None\<close> under
  \<^verbatim>\<open>_id\<close>, \<^verbatim>\<open>_rev\<close> or \<^verbatim>\<open>_key\<close>. Then a constructed object has its id, revision, key
  and resource address all unset or all set, and every method keeps it so, whether it
  returns or raises: \<^verbatim>\<open>reset\<close>, \<^verbatim>\<open>set\<close>, field assignment, \<^verbatim>\<open>save\<close> (of a document and of
  an edge), \<^verbatim>\<open>forceSave\<close>, \<^verbatim>\<open>saveCopy\<close>, \<^verbatim>\<open>patch\<close> and \<^verbatim>\<open>delete\<close>.
\<close>

theorem identity_attributes_invariant:
  assumes srv: "\<forall>lg rq data. json (srv lg rq) = Some data \<longrightarrow> reserved_not_None data"
      and fd: "reserved_not_None fd"
      and inv: "identity_inv self"
  shows "(\<forall>d. fst (Document_init c fd) = Inr d \<longrightarrow> identity_inv d) \<and>
         (\<forall>d. fst (Edge_init c fd) = Inr d \<longrightarrow> identity_inv d) \<and>
         identity_inv (fst (snd (Document_reset self c fd))) \<and>
         identity_inv (fst (snd (Document_set self fd))) \<and>
         identity_inv (snd (Document_setitem self k v)) \<and>
         identity_inv (fst (snd (Document_save srv self docArgs lg))) \<and>
         identity_inv (fst (snd (Edge_save srv self fromVertice toVertice docArgs lg))) \<and>
         identity_inv (fst (snd (save srv self docArgs lg))) \<and>
         identity_inv (fst (snd (Document_forceSave srv self docArgs lg))) \<and>
         identity_inv (fst (snd (Document_saveCopy srv self lg))) \<and>
         identity_inv (fst (snd (Document_patch srv self keepNull docArgs lg))) \<and>
         identity_inv (fst (snd (Document_delete srv self lg)))"
  using init_inv [OF fd, of c] reset_inv [OF fd, of self c] set_inv [OF fd, of self]
    setitem_inv [of self k v] inv
    Document_save_inv [OF srv inv, of docArgs lg]
    Edge_save_inv [OF srv inv, of fromVertice toVertice docArgs lg]
    save_inv [OF srv inv, of docArgs lg]
    forceSave_inv [OF srv inv, of docArgs lg]
    saveCopy_inv [OF srv, of self lg]
    patch_inv [OF srv inv, of keepNull docArgs lg]
    delete_inv [OF inv, of srv lg]
  by blast

theorem identity_attributes_invariant_witness:
  "reserved_not_None stored_fields \<and> identity_inv (saved_document users) \<and>
   identity_inv (fst (snd (Document_reset (saved_document users) users stored_fields))) \<and>
   identity_inv (fst (snd (Document_set (saved_document users) stored_fields))) \<and>
   identity_inv (snd (Document_setitem (saved_document users) ''age'' (PInt 5))) \<and>
   identity_inv (fst (snd (save accepting_server (saved_document users) [] []))) \<and>
   identity_inv (fst (snd (Document_forceSave accepting_server (saved_document users) [] []))) \<and>
   identity_inv (fst (snd (Document_saveCopy accepting_server (saved_document users) []))) \<and>
   identity_inv (fst (snd (Document_patch accepting_server (saved_document users) (PBool True) [] []))) \<and>
   identity_inv (fst (snd (Document_delete accepting_server (saved_document users) [])))"
proof -
  have srv: "\<forall>lg rq data. json (accepting_server lg rq) = Some data \<longrightarrow> reserved_not_None data"
    by (auto simp: accepting_server_def reserved_not_None_def reserved_keys_def)
  have fd: "reserved_not_None stored_fields"
    by (simp add: stored_fields_def reserved_not_None_def reserved_keys_def)
  have inv: "identity_inv (saved_document users)"
    by (simp add: identity_inv_def saved_document_def)
  from identity_attributes_invariant [OF srv fd inv, of users "''age''" "PInt 5" "[]" "[]"
      "Val PNone" "Val PNone" "PBool True"] fd inv
  show ?thesis by blast
qed

text \<open>
  Claim C7 as stated fails on a dictionary whose \<^verbatim>\<open>_id\<close> is \<^verbatim>\<open>None\<close>: the constructed
  document has no id, but a revision, a key and a resource address.
\<close>

theorem identity_attributes_counterexample:
  "fst (Document_init users null_id_fields)
     = Inr ((new_document users)\<lparr>doc_rev := PStr ''7'', doc_key := PStr ''1'',
              URL := Some ''http://localhost:8529/_api/document/None''\<rparr>) \<and>
   doc_id ((new_document users)\<lparr>doc_rev := PStr ''7'', doc_key := PStr ''1'',
              URL := Some ''http://localhost:8529/_api/document/None''\<rparr>) = PNone \<and>
   \<not> identity_inv ((new_document users)\<lparr>doc_rev := PStr ''7'', doc_key := PStr ''1'',
              URL := Some ''http://localhost:8529/_api/document/None''\<rparr>)"
  by (simp add: Document_init_def Document_reset_def Document_set_def setPrivates_def
      Document_setPrivates_def new_document_def blank_def users_def null_id_fields_def
      dict_update_def identity_inv_def Let_def)

end
